theory Spec2Isabelle
  imports Main
begin

section \<open>Values exchanged with the platform\<close>

text \<open>
  The development embeds \<^verbatim>\<open>src/core.ts\<close> (\<^verbatim>\<open>serializeBody\<close>, \<^verbatim>\<open>zFetch\<close>,
  \<^verbatim>\<open>zFetch.stream\<close>) and the error class of \<^verbatim>\<open>error.ts\<close>.  JavaScript values of
  type \<^verbatim>\<open>unknown\<close> that come out of \<^verbatim>\<open>JSON.parse\<close> are JSON values; a raw response
  text kept after a failed parse is the JSON string \<open>JStr\<close>, exactly as in JavaScript,
  where both are plain strings.  Numbers are modelled as integers.
\<close>

datatype json =
    JNull
  | JBool bool
  | JNum int
  | JStr string
  | JArr "json list"
  | JObj "(string \<times> json) list"

text \<open>
  A value caught by \<^verbatim>\<open>catch (error)\<close> that is not a \<^verbatim>\<open>ZodFetchError\<close>: either an
  \<^verbatim>\<open>Error\<close> instance, given by whether it is a \<^verbatim>\<open>TypeError\<close>, its \<^verbatim>\<open>name\<close> and its
  \<^verbatim>\<open>message\<close>, or some other thrown value.
\<close>

datatype thrown =
    JsError bool string string
  | NonError

fun instanceof_Error :: "thrown \<Rightarrow> bool" where
  "instanceof_Error (JsError _ _ _) = True"
| "instanceof_Error NonError = False"

fun instanceof_TypeError :: "thrown \<Rightarrow> bool" where
  "instanceof_TypeError (JsError t _ _) = t"
| "instanceof_TypeError NonError = False"

text \<open>\<^verbatim>\<open>error instanceof Error && error.name === n\<close>\<close>

fun Error_named :: "thrown \<Rightarrow> string \<Rightarrow> bool" where
  "Error_named (JsError _ nm _) n = (nm = n)"
| "Error_named NonError n = False"

text \<open>\<^verbatim>\<open>error instanceof TypeError && error.message === m\<close>\<close>

fun TypeError_saying :: "thrown \<Rightarrow> string \<Rightarrow> bool" where
  "TypeError_saying (JsError t _ msg) m = (t \<and> msg = m)"
| "TypeError_saying NonError m = False"

text \<open>
  The rejection of a \<^verbatim>\<open>fetch\<close> whose signal was aborted by \<^verbatim>\<open>controller.abort()\<close>:
  a \<^verbatim>\<open>DOMException\<close> named \<^verbatim>\<open>AbortError\<close>.
\<close>

definition AbortError :: thrown where
  "AbortError = JsError False ''AbortError'' ''This operation was aborted''"

text \<open>
  Request bodies, by the tests \<^verbatim>\<open>serializeBody\<close> applies to them.  \<open>TextBody\<close> is a
  JavaScript string (\<^verbatim>\<open>typeof body === "string"\<close>); every other constructor is an
  object.  \<open>BufferSource\<close> stands for \<^verbatim>\<open>ArrayBuffer\<close> and typed arrays, which are
  objects but instances of none of the four classes the function tests for; \<open>Object\<close>
  is any other object, given by its JSON content.  The parameter \<^verbatim>\<open>undefined\<close> or
  \<^verbatim>\<open>null\<close> is \<open>None\<close> of \<open>body_init option\<close>.
\<close>

datatype body_init =
    TextBody string
  | Blob "nat list"
  | FormData "(string \<times> string) list"
  | URLSearchParams "(string \<times> string) list"
  | ReadableStream "string list"
  | BufferSource "nat list"
  | Object json

fun typeof_object :: "body_init \<Rightarrow> bool" where
  "typeof_object (TextBody _) = False"
| "typeof_object _ = True"

fun instanceof_Blob :: "body_init \<Rightarrow> bool" where
  "instanceof_Blob (Blob _) = True"
| "instanceof_Blob _ = False"

fun instanceof_FormData :: "body_init \<Rightarrow> bool" where
  "instanceof_FormData (FormData _) = True"
| "instanceof_FormData _ = False"

fun instanceof_URLSearchParams :: "body_init \<Rightarrow> bool" where
  "instanceof_URLSearchParams (URLSearchParams _) = True"
| "instanceof_URLSearchParams _ = False"

fun instanceof_ReadableStream :: "body_init \<Rightarrow> bool" where
  "instanceof_ReadableStream (ReadableStream _) = True"
| "instanceof_ReadableStream _ = False"

text \<open>A parsed URL: what \<^verbatim>\<open>new URL(s)\<close> yields, with its list of query parameters.\<close>

record URL =
  location :: string
  search :: "(string \<times> string) list"

text \<open>
  The platform functions the code calls and does not define.  \<open>JSON_parse\<close> and
  \<open>new_URL\<close> return \<open>Inl\<close> of the thrown error where the JavaScript function throws.
\<close>

record platform =
  JSON_parse :: "string \<Rightarrow> thrown + json"
  JSON_stringify :: "body_init \<Rightarrow> string"
  new_URL :: "string \<Rightarrow> thrown + URL"
  URL_toString :: "URL \<Rightarrow> string"

section \<open>Headers\<close>

text \<open>
  A \<^verbatim>\<open>Headers\<close> object is a list of name-value pairs whose names are lower-cased, as
  the Fetch standard normalises them; \<^verbatim>\<open>has\<close>, \<^verbatim>\<open>get\<close> and \<^verbatim>\<open>set\<close> lower-case the
  name they are given.
\<close>

type_synonym Headers = "(string \<times> string) list"

definition lower_char :: "char \<Rightarrow> char" where
  "lower_char c =
     (case map_of (zip ''ABCDEFGHIJKLMNOPQRSTUVWXYZ'' ''abcdefghijklmnopqrstuvwxyz'') c of
        Some d \<Rightarrow> d
      | None \<Rightarrow> c)"

definition lower :: "string \<Rightarrow> string" where
  "lower s = map lower_char s"

definition new_Headers :: "(string \<times> string) list \<Rightarrow> Headers" where
  "new_Headers init = map (\<lambda>(k, v). (lower k, v)) init"

definition Headers_get :: "Headers \<Rightarrow> string \<Rightarrow> string option" where
  "Headers_get hs name = map_of hs (lower name)"

definition Headers_has :: "Headers \<Rightarrow> string \<Rightarrow> bool" where
  "Headers_has hs name = (Headers_get hs name \<noteq> None)"

definition Headers_set :: "Headers \<Rightarrow> string \<Rightarrow> string \<Rightarrow> Headers" where
  "Headers_set hs name v = filter (\<lambda>kv. fst kv \<noteq> lower name) hs @ [(lower name, v)]"

section \<open>serializeBody\<close>

text \<open>
  \<^verbatim>\<open>serializeBody(body, headers)\<close> mutates \<^verbatim>\<open>headers\<close> and returns the body to send;
  the model returns both.
\<close>

definition serializeBody ::
  "platform \<Rightarrow> body_init option \<Rightarrow> Headers \<Rightarrow> body_init option \<times> Headers" where
  "serializeBody P body headers =
     (case body of
        None \<Rightarrow> (None, headers)
      | Some b \<Rightarrow>
          if typeof_object b \<and> \<not> instanceof_Blob b \<and> \<not> instanceof_FormData b \<and>
             \<not> instanceof_URLSearchParams b \<and> \<not> instanceof_ReadableStream b
          then (Some (TextBody (JSON_stringify P b)),
                if \<not> Headers_has headers ''Content-Type''
                then Headers_set headers ''Content-Type'' ''application/json''
                else headers)
          else (Some b, headers))"

text \<open>The four kinds the specification calls already encoded.\<close>

definition already_encoded :: "body_init \<Rightarrow> bool" where
  "already_encoded b =
     (instanceof_Blob b \<or> instanceof_FormData b \<or> instanceof_URLSearchParams b \<or>
      instanceof_ReadableStream b)"

section \<open>Errors, responses and options\<close>

datatype ZodFetchErrorCause = Network | Timeout | Validation | Abort | Unknown

text \<open>
  A \<^verbatim>\<open>Response\<close>: its status line, the \<^verbatim>\<open>content-type\<close> header, and its body as the
  list of decoded text fragments the body stream delivers (\<open>None\<close> is a \<^verbatim>\<open>null\<close>
  body).  \<open>read_error\<close> is the error with which reading the body rejects, if it does.
  \<^verbatim>\<open>response.ok\<close> is, by the Fetch standard, a status from 200 to 299.
\<close>

record response =
  status :: nat
  statusText :: string
  content_type :: "string option"
  body_chunks :: "string list option"
  read_error :: "thrown option"

definition ok :: "response \<Rightarrow> bool" where
  "ok r = (200 \<le> status r \<and> status r \<le> 299)"

text \<open>The \<^verbatim>\<open>data\<close> field of an error is \<^verbatim>\<open>unknown\<close>: a parsed payload or a caught error.\<close>

datatype unknown = Payload json | Caught thrown

type_synonym ZodIssue = string

record ZodFetchError =
  e_message :: string
  e_status :: "nat option"
  e_statusText :: "string option"
  e_url :: "string option"
  e_response :: "response option"
  e_issues :: "ZodIssue list option"
  e_data :: "unknown option"
  e_cause :: ZodFetchErrorCause

text \<open>What a promise of the library rejects with: a raw value or a \<^verbatim>\<open>ZodFetchError\<close>.\<close>

datatype exn = Plain thrown | ZFE ZodFetchError

datatype 'a outcome = Resolved 'a | Rejected exn | Pending

text \<open>The schema engine: \<^verbatim>\<open>schema.safeParseAsync(data)\<close>.\<close>

datatype 'v SafeParse = Success 'v | Failure "ZodIssue list"

datatype backoff_mode = Linear | Exponential

record ZodFetchRetryOptions =
  attempts :: int
  delay :: "int option"
  backoff :: "backoff_mode option"

datatype retry_option = RetryCount int | RetryOptions ZodFetchRetryOptions

datatype param = PString string | PNumber int | PBoolean bool

text \<open>
  The caller's \<^verbatim>\<open>AbortSignal\<close>, given by when it becomes aborted.  Attempts are numbered
  from 1.  \<open>FiresDuringCall k\<close>: while the network call of attempt \<open>k\<close> is in flight.
  \<open>FiresAfterCall k\<close>: after the response of attempt \<open>k\<close> has been read, while the
  schema runs.  \<open>FiresDuringWait k\<close>: during the pause that follows attempt \<open>k\<close>.
\<close>

datatype AbortSignal =
    NeverAborts
  | AbortedAtEntry
  | FiresDuringCall nat
  | FiresAfterCall nat
  | FiresDuringWait nat

record 'v ZodFetchOptions =
  url :: string
  schema :: "json \<Rightarrow> 'v SafeParse"
  searchParams :: "(string \<times> param option) list option"
  body :: "body_init option"
  timeout :: "int option"
  retry :: "retry_option option"
  headers :: "(string \<times> string) list"
  signal :: "AbortSignal option"
  http_method :: "string option"

text \<open>
  \<^verbatim>\<open>init.signal?.aborted\<close> as the catch block of attempt \<open>k\<close> reads it.
\<close>

fun signal_aborted :: "AbortSignal option \<Rightarrow> nat \<Rightarrow> bool" where
  "signal_aborted None k = False"
| "signal_aborted (Some NeverAborts) k = False"
| "signal_aborted (Some AbortedAtEntry) k = True"
| "signal_aborted (Some (FiresDuringCall j)) k = (j \<le> k)"
| "signal_aborted (Some (FiresAfterCall j)) k = (j \<le> k)"
| "signal_aborted (Some (FiresDuringWait j)) k = (j < k)"

text \<open>
  Whether the listener that attempt \<open>k\<close> adds with
  \<^verbatim>\<open>init.signal.addEventListener('abort', () => controller.abort())\<close> runs while the
  call of attempt \<open>k\<close> is in flight.  It runs when the signal fires then; a signal that
  is already aborted when the listener is added dispatches no further event.
\<close>

fun listener_fires :: "AbortSignal option \<Rightarrow> nat \<Rightarrow> bool" where
  "listener_fires (Some (FiresDuringCall j)) k = (j = k)"
| "listener_fires _ k = False"

section \<open>Effects\<close>

datatype signal_ref = Controller nat | Callers | NoRef

record request =
  req_url :: string
  req_headers :: Headers
  req_body :: "body_init option"
  req_signal :: signal_ref
  req_method :: "string option"

text \<open>
  What a run does, in order.  \<open>Validate st d\<close> is a call
  \<^verbatim>\<open>schema.safeParseAsync(d)\<close> made while the response in scope has status \<open>st\<close>;
  \<open>Wait ms\<close> is \<^verbatim>\<open>await wait(ms)\<close>; \<open>OnChunk v\<close> is \<^verbatim>\<open>onChunk(v)\<close>.
\<close>

datatype 'v effect =
    NewController
  | SetTimeout int
  | AddEventListener
  | Fetch request
  | ClearTimeout
  | Validate nat json
  | Wait int
  | OnChunk 'v

text \<open>What the transport does with the \<open>k\<close>-th call when nobody cancels it.\<close>

datatype net_outcome = Resolves response | Rejects thrown | Hangs

section \<open>Helpers of the request executor\<close>

fun show_nat :: "nat \<Rightarrow> string" where
  "show_nat n =
     (if n < 10 then [''0123456789'' ! n]
      else show_nat (n div 10) @ [''0123456789'' ! (n mod 10)])"

declare show_nat.simps [simp del]

definition show_int :: "int \<Rightarrow> string" where
  "show_int i = (if i < 0 then ''-'' @ show_nat (nat (- i)) else show_nat (nat i))"

text \<open>\<^verbatim>\<open>String(value)\<close> on a query parameter.\<close>

fun String_of :: "param \<Rightarrow> string" where
  "String_of (PString s) = s"
| "String_of (PNumber n) = show_int n"
| "String_of (PBoolean b) = (if b then ''true'' else ''false'')"

text \<open>\<^verbatim>\<open>s.includes(pat)\<close>\<close>

fun String_includes :: "string \<Rightarrow> string \<Rightarrow> bool" where
  "String_includes [] pat = (pat = [])"
| "String_includes (c # cs) pat =
     (take (length pat) (c # cs) = pat \<or> String_includes cs pat)"

text \<open>
  The loop \<^verbatim>\<open>for (const [key, value] of Object.entries(searchParams))\<close>: the pairs
  appended to \<^verbatim>\<open>requestUrl.searchParams\<close>.
\<close>

fun appended :: "(string \<times> param option) list \<Rightarrow> (string \<times> string) list" where
  "appended [] = []"
| "appended ((key, None) # rest) = appended rest"
| "appended ((key, Some v) # rest) = (key, String_of v) # appended rest"

definition DEFAULT_TIMEOUT :: int where
  "DEFAULT_TIMEOUT = 10000"

definition normalize_retry :: "retry_option option \<Rightarrow> ZodFetchRetryOptions" where
  "normalize_retry r =
     (case r of
        Some (RetryCount n) \<Rightarrow> \<lparr> attempts = n, delay = Some 1000, backoff = Some Linear \<rparr>
      | Some (RetryOptions c) \<Rightarrow> c
      | None \<Rightarrow> \<lparr> attempts = 0, delay = Some 0, backoff = Some Linear \<rparr>)"

text \<open>
  \<^verbatim>\<open>const delay = retryConfig.delay || 1000\<close> and
  \<^verbatim>\<open>const backoff = retryConfig.backoff === "exponential" ? Math.pow(2, attempt - 1) : 1\<close>;
  the pause is \<^verbatim>\<open>delay * backoff\<close>.
\<close>

definition retry_delay :: "ZodFetchRetryOptions \<Rightarrow> int" where
  "retry_delay c = (case delay c of None \<Rightarrow> 1000 | Some d \<Rightarrow> if d = 0 then 1000 else d)"

definition retry_backoff :: "ZodFetchRetryOptions \<Rightarrow> nat \<Rightarrow> int" where
  "retry_backoff c attempt = (if backoff c = Some Exponential then 2 ^ (attempt - 1) else 1)"

definition retry_pause :: "ZodFetchRetryOptions \<Rightarrow> nat \<Rightarrow> int" where
  "retry_pause c attempt = retry_delay c * retry_backoff c attempt"

text \<open>\<^verbatim>\<open>response.text()\<close> and \<^verbatim>\<open>response.json()\<close>\<close>

definition response_text :: "response \<Rightarrow> thrown + string" where
  "response_text r =
     (case read_error r of
        Some e \<Rightarrow> Inl e
      | None \<Rightarrow> Inr (concat (case body_chunks r of None \<Rightarrow> [] | Some cs \<Rightarrow> cs)))"

definition response_json :: "platform \<Rightarrow> response \<Rightarrow> thrown + json" where
  "response_json P r =
     (case response_text r of Inl e \<Rightarrow> Inl e | Inr t \<Rightarrow> JSON_parse P t)"

text \<open>\<^verbatim>\<open>try { data = JSON.parse(text) } catch { data = text }\<close>\<close>

definition parse_or_text :: "platform \<Rightarrow> string \<Rightarrow> json" where
  "parse_or_text P t = (case JSON_parse P t of Inr j \<Rightarrow> j | Inl _ \<Rightarrow> JStr t)"

text \<open>The body of a response with a success status, lines 122 to 133.\<close>

definition read_data :: "platform \<Rightarrow> response \<Rightarrow> thrown + json" where
  "read_data P r =
     (if (case content_type r of
            None \<Rightarrow> False
          | Some contentType \<Rightarrow>
              contentType \<noteq> [] \<and> String_includes contentType ''application/json'')
      then response_json P r
      else (case response_text r of
              Inl e \<Rightarrow> Inl e
            | Inr t \<Rightarrow> Inr (parse_or_text P t)))"

text \<open>The error body of a response with a failure status, lines 98 to 108.\<close>

definition read_errorData :: "platform \<Rightarrow> response \<Rightarrow> json option" where
  "read_errorData P r =
     (case response_text r of Inl _ \<Rightarrow> None | Inr t \<Rightarrow> Some (parse_or_text P t))"

section \<open>The request executor zFetch\<close>

text \<open>The variables of \<^verbatim>\<open>zFetch\<close> that its loop reads.\<close>

record 'v scope =
  opts :: "'v ZodFetchOptions"
  requestUrl :: URL
  requestHeaders :: Headers
  requestBody :: "body_init option"
  timeout_ms :: int
  retryConfig :: ZodFetchRetryOptions

text \<open>
  \<^verbatim>\<open>await fetch(..., {signal: controller.signal})\<close> in attempt \<open>k\<close>.  The controller
  is aborted, and the call rejects with \<open>AbortError\<close>, when the caller's signal fires
  during the call or when the transport has not answered before the timer runs.
\<close>

definition fetch :: "AbortSignal option \<Rightarrow> (nat \<Rightarrow> net_outcome) \<Rightarrow> nat \<Rightarrow> thrown + response" where
  "fetch sig transport k =
     (if listener_fires sig k then Inl AbortError
      else (case transport k of
              Resolves r \<Rightarrow> Inr r
            | Rejects e \<Rightarrow> Inl e
            | Hangs \<Rightarrow> Inl AbortError))"

datatype 'v completion = Returned 'v | Threw exn

text \<open>Lines 94 to 149: the \<^verbatim>\<open>try\<close> block after \<^verbatim>\<open>await fetch\<close>.\<close>

definition try_block ::
  "platform \<Rightarrow> 'v scope \<Rightarrow> thrown + response \<Rightarrow> 'v completion \<times> 'v effect list" where
  "try_block P S fetched =
     (case fetched of
        Inl e \<Rightarrow> (Threw (Plain e), [])
      | Inr r \<Rightarrow>
          if \<not> ok r then
            (Threw (ZFE \<lparr> e_message = ''Request failed with status '' @ show_nat (status r),
                          e_status = Some (status r),
                          e_statusText = Some (statusText r),
                          e_url = Some (URL_toString P (requestUrl S)),
                          e_response = Some r,
                          e_issues = None,
                          e_data = map_option Payload (read_errorData P r),
                          e_cause = Network \<rparr>),
             [ClearTimeout])
          else
            (case read_data P r of
               Inl e \<Rightarrow> (Threw (Plain e), [ClearTimeout])
             | Inr data \<Rightarrow>
                 (case schema (opts S) data of
                    Failure issues \<Rightarrow>
                      (Threw (ZFE \<lparr> e_message = ''Validation error'',
                                    e_status = None,
                                    e_statusText = None,
                                    e_url = Some (URL_toString P (requestUrl S)),
                                    e_response = Some r,
                                    e_issues = Some issues,
                                    e_data = Some (Payload data),
                                    e_cause = Validation \<rparr>),
                       [ClearTimeout, Validate (status r) data])
                  | Success v \<Rightarrow> (Returned v, [ClearTimeout, Validate (status r) data]))))"

datatype step = Throw exn | Continue int

text \<open>\<^verbatim>\<open>error instanceof Error && error.name === "AbortError"\<close> on a caught value.\<close>

fun isAbort :: "exn \<Rightarrow> bool" where
  "isAbort (Plain e) = Error_named e ''AbortError''"
| "isAbort (ZFE z) = False"

text \<open>
  The second and third disjuncts of \<^verbatim>\<open>shouldRetry\<close>:
  \<^verbatim>\<open>error instanceof TypeError && error.message === "Failed to fetch"\<close> and
  \<^verbatim>\<open>error instanceof ZodFetchError && error.status && error.status >= 500\<close>.
\<close>

fun isNetworkError :: "exn \<Rightarrow> bool" where
  "isNetworkError (Plain e) = TypeError_saying e ''Failed to fetch''"
| "isNetworkError (ZFE z) = False"

fun isServerError :: "exn \<Rightarrow> bool" where
  "isServerError (Plain e) = False"
| "isServerError (ZFE z) = (case e_status z of None \<Rightarrow> False | Some s \<Rightarrow> s \<noteq> 0 \<and> 500 \<le> s)"

text \<open>\<^verbatim>\<open>error instanceof Error ? error.message : "Network error"\<close>\<close>

fun message_of :: "thrown \<Rightarrow> string" where
  "message_of (JsError _ _ msg) = msg"
| "message_of NonError = ''Network error''"

definition bare_error :: "string \<Rightarrow> string \<Rightarrow> ZodFetchErrorCause \<Rightarrow> ZodFetchError" where
  "bare_error msg u c =
     \<lparr> e_message = msg, e_status = None, e_statusText = None, e_url = Some u,
       e_response = None, e_issues = None, e_data = None, e_cause = c \<rparr>"

text \<open>
  Lines 154 to 198: the \<^verbatim>\<open>catch\<close> block of attempt \<open>attempt\<close> after
  \<^verbatim>\<open>clearTimeout\<close>.  \<open>Continue ms\<close> is \<^verbatim>\<open>await wait(ms); continue\<close>.
\<close>

definition catch_block :: "platform \<Rightarrow> 'v scope \<Rightarrow> nat \<Rightarrow> exn \<Rightarrow> step" where
  "catch_block P S attempt error =
     (let aborted = signal_aborted (signal (opts S)) attempt;
          isTimeout = (isAbort error \<and> \<not> aborted)
      in if aborted
         then Throw (ZFE (bare_error ''Request aborted'' (URL_toString P (requestUrl S)) Abort))
         else if int attempt \<le> attempts (retryConfig S) \<and>
                 (isTimeout \<or> isNetworkError error \<or> isServerError error)
         then Continue (retry_pause (retryConfig S) attempt)
         else (case error of
                 ZFE z \<Rightarrow> Throw (ZFE z)
               | Plain e \<Rightarrow>
                   if isTimeout
                   then Throw (ZFE (bare_error ''Request timed out''
                                      (URL_toString P (requestUrl S)) Timeout))
                   else Throw (ZFE ((bare_error (message_of e)
                                       (URL_toString P (requestUrl S)) Network)
                                    \<lparr> e_data := Some (Caught e) \<rparr>))))"

text \<open>The request that attempt \<open>k\<close> passes to \<^verbatim>\<open>fetch\<close>.\<close>

definition attempt_request :: "platform \<Rightarrow> 'v scope \<Rightarrow> nat \<Rightarrow> request" where
  "attempt_request P S k =
     \<lparr> req_url = URL_toString P (requestUrl S),
       req_headers = requestHeaders S,
       req_body = requestBody S,
       req_signal = Controller k,
       req_method = http_method (opts S) \<rparr>"

text \<open>Lines 78 to 92: what attempt \<open>k\<close> does up to and including the call.\<close>

definition attempt_prologue :: "platform \<Rightarrow> 'v scope \<Rightarrow> nat \<Rightarrow> 'v effect list" where
  "attempt_prologue P S k =
     [NewController, SetTimeout (timeout_ms S)] @
     (if signal (opts S) \<noteq> None then [AddEventListener] else []) @
     [Fetch (attempt_request P S k)]"

text \<open>
  The loop \<^verbatim>\<open>while (true)\<close> of lines 76 to 200; the argument is the value of
  \<^verbatim>\<open>attempt\<close> before \<^verbatim>\<open>attempt++\<close>.
\<close>

function attempt_loop ::
  "platform \<Rightarrow> (nat \<Rightarrow> net_outcome) \<Rightarrow> 'v scope \<Rightarrow> nat \<Rightarrow> 'v outcome \<times> 'v effect list" where
  "attempt_loop P transport S attempt0 =
     (let attempt = attempt0 + 1 in
      case try_block P S (fetch (signal (opts S)) transport attempt) of
        (Returned v, es) \<Rightarrow> (Resolved v, attempt_prologue P S attempt @ es)
      | (Threw error, es) \<Rightarrow>
          (case catch_block P S attempt error of
             Throw e \<Rightarrow> (Rejected e, attempt_prologue P S attempt @ es @ [ClearTimeout])
           | Continue ms \<Rightarrow>
               (case attempt_loop P transport S attempt of
                  (r, rest) \<Rightarrow>
                    (r, attempt_prologue P S attempt @ es @ [ClearTimeout, Wait ms] @ rest))))"
  by pat_completeness auto
termination
proof (relation "measure (\<lambda>(P, transport, S, attempt0). nat (attempts (retryConfig S) - int attempt0))")
  show "wf (measure (\<lambda>(P, transport, S, attempt0). nat (attempts (retryConfig S) - int attempt0)))"
    by simp
next
  fix P :: platform and transport :: "nat \<Rightarrow> net_outcome" and S :: "'v scope"
    and attempt0 attempt :: nat and x :: "'v completion \<times> 'v effect list"
    and c :: "'v completion" and es :: "'v effect list" and error :: exn and ms :: int
  assume "attempt = attempt0 + 1" and "catch_block P S attempt error = Continue ms"
  then have "int attempt0 + 1 \<le> attempts (retryConfig S)"
    by (auto simp: catch_block_def Let_def split: if_splits exn.splits)
  then show "((P, transport, S, attempt), (P, transport, S, attempt0))
      \<in> measure (\<lambda>(P, transport, S, attempt0). nat (attempts (retryConfig S) - int attempt0))"
    using \<open>attempt = attempt0 + 1\<close> by simp
qed

declare attempt_loop.simps [simp del]

text \<open>
  Lines 45 to 73 of \<^verbatim>\<open>zFetch\<close>: the variables the loop reads, once
  \<^verbatim>\<open>new URL(url.toString())\<close> has returned \<open>u\<close>.
\<close>

definition scope_of :: "platform \<Rightarrow> 'v ZodFetchOptions \<Rightarrow> URL \<Rightarrow> 'v scope" where
  "scope_of P options u =
     (case serializeBody P (body options) (new_Headers (headers options)) of
        (requestBody', headers') \<Rightarrow>
          \<lparr> opts = options,
            requestUrl =
              u \<lparr> search := search u @
                   (case searchParams options of None \<Rightarrow> [] | Some ps \<Rightarrow> appended ps) \<rparr>,
            requestHeaders = headers',
            requestBody = requestBody',
            timeout_ms = (case timeout options of None \<Rightarrow> DEFAULT_TIMEOUT | Some t \<Rightarrow> t),
            retryConfig = normalize_retry (retry options) \<rparr>)"

text \<open>
  \<^verbatim>\<open>zFetch(options)\<close>, run against a transport.  \<^verbatim>\<open>new URL\<close> throws outside the
  \<^verbatim>\<open>try\<close> block, so its error leaves \<^verbatim>\<open>zFetch\<close> as it is.
\<close>

definition zFetch ::
  "platform \<Rightarrow> 'v ZodFetchOptions \<Rightarrow> (nat \<Rightarrow> net_outcome) \<Rightarrow> 'v outcome \<times> 'v effect list" where
  "zFetch P options transport =
     (case new_URL P (url options) of
        Inl e \<Rightarrow> (Rejected (Plain e), [])
      | Inr u \<Rightarrow> attempt_loop P transport (scope_of P options u) 0)"

section \<open>The streaming variant zFetch.stream\<close>

text \<open>
  Lines 227 to 246, over the decoded fragments the reader delivers before it reports
  \<^verbatim>\<open>done\<close>.
\<close>

fun read_loop :: "platform \<Rightarrow> (json \<Rightarrow> 'v SafeParse) \<Rightarrow> nat \<Rightarrow> string list \<Rightarrow> 'v effect list" where
  "read_loop P sch st [] = []"
| "read_loop P sch st (chunk # rest) =
     (let data = parse_or_text P chunk in
      Validate st data #
      (case sch data of Success v \<Rightarrow> [OnChunk v] | Failure _ \<Rightarrow> []) @
      read_loop P sch st rest)"

definition stream_request :: "platform \<Rightarrow> 'v ZodFetchOptions \<Rightarrow> request" where
  "stream_request P options =
     (case serializeBody P (body options) (new_Headers (headers options)) of
        (requestBody', headers') \<Rightarrow>
          \<lparr> req_url = url options,
            req_headers = headers',
            req_body = requestBody',
            req_signal = (case signal options of None \<Rightarrow> NoRef | Some _ \<Rightarrow> Callers),
            req_method = http_method options \<rparr>)"

text \<open>
  \<^verbatim>\<open>zFetch.stream(options)\<close>, given what its one call to \<^verbatim>\<open>fetch\<close> does.  No timer
  bounds the call, so a transport that never answers leaves the promise pending.
\<close>

definition stream ::
  "platform \<Rightarrow> 'v ZodFetchOptions \<Rightarrow> net_outcome \<Rightarrow> unit outcome \<times> 'v effect list" where
  "stream P options net =
     (case net of
        Hangs \<Rightarrow> (Pending, [Fetch (stream_request P options)])
      | Rejects e \<Rightarrow> (Rejected (Plain e), [Fetch (stream_request P options)])
      | Resolves r \<Rightarrow>
          (case body_chunks r of
             None \<Rightarrow>
               (Rejected (Plain (JsError False ''Error'' ''Response body is null'')),
                [Fetch (stream_request P options)])
           | Some chunks \<Rightarrow>
               ((case read_error r of None \<Rightarrow> Resolved () | Some e \<Rightarrow> Rejected (Plain e)),
                Fetch (stream_request P options) #
                read_loop P (schema options) (status r) chunks)))"

section \<open>Reading a trace\<close>

fun fetches :: "'v effect list \<Rightarrow> request list" where
  "fetches [] = []"
| "fetches (Fetch q # es) = q # fetches es"
| "fetches (_ # es) = fetches es"

fun waits :: "'v effect list \<Rightarrow> int list" where
  "waits [] = []"
| "waits (Wait ms # es) = ms # waits es"
| "waits (_ # es) = waits es"

fun validations :: "'v effect list \<Rightarrow> (nat \<times> json) list" where
  "validations [] = []"
| "validations (Validate st d # es) = (st, d) # validations es"
| "validations (_ # es) = validations es"

fun chunks_delivered :: "'v effect list \<Rightarrow> 'v list" where
  "chunks_delivered [] = []"
| "chunks_delivered (OnChunk v # es) = v # chunks_delivered es"
| "chunks_delivered (_ # es) = chunks_delivered es"

fun timers :: "'v effect list \<Rightarrow> int list" where
  "timers [] = []"
| "timers (SetTimeout ms # es) = ms # timers es"
| "timers (_ # es) = timers es"

fun controllers :: "'v effect list \<Rightarrow> nat" where
  "controllers [] = 0"
| "controllers (NewController # es) = Suc (controllers es)"
| "controllers (_ # es) = controllers es"

text \<open>
  The calls and pauses of a run in order: \<open>Inl k\<close> is the call of attempt \<open>k\<close> (the
  request whose signal is that of the \<open>k\<close>-th controller), \<open>Inr ms\<close> a pause.
\<close>

fun timeline :: "'v effect list \<Rightarrow> (nat + int) list" where
  "timeline [] = []"
| "timeline (Fetch q # es) =
     (case req_signal q of Controller k \<Rightarrow> Inl k # timeline es | _ \<Rightarrow> timeline es)"
| "timeline (Wait ms # es) = Inr ms # timeline es"
| "timeline (_ # es) = timeline es"

text \<open>
  What the transport may do with a call so that the attempt fails in a way the code
  retries: no answer before the timer, a rejection named \<^verbatim>\<open>AbortError\<close>, the
  connectivity failure \<^verbatim>\<open>TypeError("Failed to fetch")\<close>, or a response with status 500
  or more.
\<close>

fun retry_eligible :: "net_outcome \<Rightarrow> bool" where
  "retry_eligible Hangs = True"
| "retry_eligible (Rejects e) = (Error_named e ''AbortError'' \<or> TypeError_saying e ''Failed to fetch'')"
| "retry_eligible (Resolves r) = (500 \<le> status r)"

text \<open>The delay a retry policy configures; 1000 ms when it names none.\<close>

definition configured_delay :: "ZodFetchRetryOptions \<Rightarrow> int" where
  "configured_delay c = (case delay c of None \<Rightarrow> 1000 | Some d \<Rightarrow> d)"

section \<open>A platform and inputs for concrete runs\<close>

text \<open>A platform for the concrete runs below; it knows a handful of JSON texts.\<close>

definition demo_parse :: "string \<Rightarrow> thrown + json" where
  \<open>demo_parse s =
     (if s = ''{"count":1}'' then Inr (JObj [(''count'', JNum 1)])
      else if s = ''{"count":2}'' then Inr (JObj [(''count'', JNum 2)])
      else if s = ''{"id":1}'' then Inr (JObj [(''id'', JNum 1)])
      else Inl (JsError False ''SyntaxError'' ''Unexpected token''))\<close>

definition demo_stringify :: "body_init \<Rightarrow> string" where
  \<open>demo_stringify b =
     (case b of
        TextBody s \<Rightarrow> ''"'' @ s @ ''"''
      | Object (JObj [(k, JStr v)]) \<Rightarrow> ''{"'' @ k @ ''":"'' @ v @ ''"}''
      | _ \<Rightarrow> ''{}'')\<close>

fun demo_query :: "(string \<times> string) list \<Rightarrow> string" where
  "demo_query [] = []"
| "demo_query [(k, v)] = k @ ''='' @ v"
| "demo_query ((k, v) # rest) = k @ ''='' @ v @ ''&'' @ demo_query rest"

definition demo_URL_toString :: "URL \<Rightarrow> string" where
  "demo_URL_toString u =
     location u @ (if search u = [] then [] else ''?'' @ demo_query (search u))"

definition demo :: platform where
  "demo = \<lparr> JSON_parse = demo_parse, JSON_stringify = demo_stringify,
            new_URL = (\<lambda>s. if s = [] then Inl (JsError True ''TypeError'' ''Invalid URL'')
                            else Inr \<lparr> location = s, search = [] \<rparr>),
            URL_toString = demo_URL_toString \<rparr>"

text \<open>The schema \<^verbatim>\<open>z.object({ count: z.number() })\<close> on the values the runs use.\<close>

definition count_schema :: "json \<Rightarrow> json SafeParse" where
  "count_schema d =
     (case d of
        JObj [(k, JNum n)] \<Rightarrow>
          if k = ''count'' then Success (JObj [(k, JNum n)]) else Failure [''count: Required'']
      | _ \<Rightarrow> Failure [''Expected object''])"

text \<open>The schema \<^verbatim>\<open>z.string()\<close>.\<close>

definition string_schema :: "json \<Rightarrow> json SafeParse" where
  "string_schema d =
     (case d of JStr t \<Rightarrow> Success (JStr t) | _ \<Rightarrow> Failure [''Expected string''])"

definition demo_options :: "json ZodFetchOptions" where
  "demo_options =
     \<lparr> url = ''https://api.example.com/items'', schema = count_schema, searchParams = None,
       body = None, timeout = None, retry = None, headers = [], signal = None,
       http_method = None \<rparr>"

definition json_response :: "nat \<Rightarrow> string \<Rightarrow> response" where
  "json_response st t =
     \<lparr> status = st, statusText = [], content_type = Some ''application/json'',
       body_chunks = Some [t], read_error = None \<rparr>"

section \<open>Properties of serializeBody\<close>

lemma Headers_has_set: "Headers_has (Headers_set hs name v) name"
  by (simp add: Headers_has_def Headers_get_def Headers_set_def)

lemma Headers_get_set: "Headers_get (Headers_set hs name v) name = Some v"
proof -
  have "map_of (filter (\<lambda>kv. fst kv \<noteq> lower name) hs) (lower name) = None"
    by (induction hs) auto
  then show ?thesis
    by (simp add: Headers_get_def Headers_set_def map_add_def)
qed

text \<open>
  C6, as amended.  A present body is turned into JSON text exactly when it is an object
  (not a string) and none of the four already encoded kinds; then the header
  \<^verbatim>\<open>Content-Type: application/json\<close> is set if and only if no \<^verbatim>\<open>Content-Type\<close> was
  set, and one that was set is kept.  Every other present body, a string or one of the
  four kinds, is returned as it is with the headers untouched; an absent body gives
  \<^verbatim>\<open>null\<close> with the headers untouched.
\<close>

theorem serializeBody_amended:
  "(typeof_object b \<and> \<not> already_encoded b \<longrightarrow>
      serializeBody P (Some b) hs =
        (Some (TextBody (JSON_stringify P b)),
         if Headers_has hs ''Content-Type'' then hs
         else Headers_set hs ''Content-Type'' ''application/json'') \<and>
      Headers_get (snd (serializeBody P (Some b) hs)) ''Content-Type'' =
        (if Headers_has hs ''Content-Type'' then Headers_get hs ''Content-Type''
         else Some ''application/json'')) \<and>
   (\<not> typeof_object b \<or> already_encoded b \<longrightarrow>
      serializeBody P (Some b) hs = (Some b, hs)) \<and>
   serializeBody P None hs = (None, hs)"
  by (auto simp: serializeBody_def already_encoded_def Headers_get_set)

theorem serializeBody_amended_witness:
  \<open>serializeBody demo (Some (Object (JObj [(''title'', JStr ''Hello'')]))) [] =
     (Some (TextBody ''{"title":"Hello"}''), [(''content-type'', ''application/json'')]) \<and>
   serializeBody demo (Some (Object (JObj [(''title'', JStr ''Hello'')])))
       [(''content-type'', ''text/plain'')] =
     (Some (TextBody ''{"title":"Hello"}''), [(''content-type'', ''text/plain'')]) \<and>
   serializeBody demo (Some (Blob [1, 2])) [] = (Some (Blob [1, 2]), []) \<and>
   serializeBody demo (Some (TextBody ''hello'')) [] = (Some (TextBody ''hello''), [])\<close>
  using serializeBody_amended [where P = demo and hs = "[]"
          and b = "Object (JObj [(''title'', JStr ''Hello'')])"]
    serializeBody_amended [where P = demo and hs = "[(''content-type'', ''text/plain'')]"
          and b = "Object (JObj [(''title'', JStr ''Hello'')])"]
    serializeBody_amended [where P = demo and hs = "[]" and b = "Blob [1, 2]"]
    serializeBody_amended [where P = demo and hs = "[]" and b = "TextBody ''hello''"]
  by (simp add: already_encoded_def demo_def demo_stringify_def Headers_has_def Headers_get_def
        Headers_set_def lower_def lower_char_def)

text \<open>
  C6 as stated fails on a string body: it is present and of none of the four already
  encoded kinds, yet it is returned as it is, not as its JSON text, and no
  \<^verbatim>\<open>Content-Type\<close> is set.
\<close>

theorem serializeBody_string_counterexample:
  \<open>\<not> already_encoded (TextBody ''hello'') \<and>
   JSON_stringify demo (TextBody ''hello'') = ''"hello"'' \<and>
   fst (serializeBody demo (Some (TextBody ''hello'')) []) \<noteq>
     Some (TextBody (JSON_stringify demo (TextBody ''hello''))) \<and>
   serializeBody demo (Some (TextBody ''hello'')) [] = (Some (TextBody ''hello''), []) \<and>
   \<not> Headers_has (snd (serializeBody demo (Some (TextBody ''hello'')) [])) ''Content-Type''\<close>
  by (simp add: serializeBody_def already_encoded_def demo_def demo_stringify_def
        Headers_has_def Headers_get_def)

section \<open>Reading traces of the two loops\<close>

lemma fetches_append: "fetches (xs @ ys) = fetches xs @ fetches ys"
  by (induction xs rule: fetches.induct) simp_all

lemma waits_append: "waits (xs @ ys) = waits xs @ waits ys"
  by (induction xs rule: waits.induct) simp_all

lemma validations_append: "validations (xs @ ys) = validations xs @ validations ys"
  by (induction xs rule: validations.induct) simp_all

lemma chunks_delivered_append:
  "chunks_delivered (xs @ ys) = chunks_delivered xs @ chunks_delivered ys"
  by (induction xs rule: chunks_delivered.induct) simp_all

lemma timers_append: "timers (xs @ ys) = timers xs @ timers ys"
  by (induction xs rule: timers.induct) simp_all

lemma controllers_append: "controllers (xs @ ys) = controllers xs + controllers ys"
  by (induction xs rule: controllers.induct) simp_all

lemma timeline_append: "timeline (xs @ ys) = timeline xs @ timeline ys"
  by (induction xs rule: timeline.induct) (simp_all split: signal_ref.splits)

lemma read_loop_append:
  "read_loop P sch st (xs @ ys) = read_loop P sch st xs @ read_loop P sch st ys"
  by (induction xs) (simp_all add: Let_def)

lemma read_loop_quiet:
  "fetches (read_loop P sch st cs) = [] \<and> waits (read_loop P sch st cs) = [] \<and>
   timers (read_loop P sch st cs) = [] \<and> controllers (read_loop P sch st cs) = 0"
  by (induction cs) (simp_all add: Let_def fetches_append waits_append timers_append
        controllers_append split: SafeParse.splits)

lemma read_loop_validations:
  "validations (read_loop P sch st cs) = map (\<lambda>chunk. (st, parse_or_text P chunk)) cs"
  by (induction cs) (simp_all add: Let_def validations_append split: SafeParse.splits)

lemma read_loop_delivered:
  "chunks_delivered (read_loop P sch st cs) =
     concat (map (\<lambda>chunk. case sch (parse_or_text P chunk) of
                             Success v \<Rightarrow> [v] | Failure _ \<Rightarrow> []) cs)"
  by (induction cs) (simp_all add: Let_def chunks_delivered_append split: SafeParse.splits)

lemma stream_trace:
  "snd (stream P options net) =
     Fetch (stream_request P options) #
     (case net of
        Resolves r \<Rightarrow>
          (case body_chunks r of
             None \<Rightarrow> []
           | Some cs \<Rightarrow> read_loop P (schema options) (status r) cs)
      | _ \<Rightarrow> [])"
  by (simp add: stream_def split: net_outcome.splits option.splits)

lemma try_block_effects:
  "fetches (snd (try_block P S f)) = [] \<and> waits (snd (try_block P S f)) = [] \<and>
   timeline (snd (try_block P S f)) = []"
  by (simp add: try_block_def split: sum.splits SafeParse.splits)

lemma attempt_prologue_reads:
  "fetches (attempt_prologue P S k) = [attempt_request P S k] \<and>
   waits (attempt_prologue P S k) = [] \<and>
   timeline (attempt_prologue P S k) = [Inl k] \<and>
   timers (attempt_prologue P S k) = [timeout_ms S] \<and>
   controllers (attempt_prologue P S k) = 1"
  by (simp add: attempt_prologue_def attempt_request_def)

lemma attempt_loop_starts:
  "\<exists>rest. snd (attempt_loop P transport S a) = attempt_prologue P S (a + 1) @ rest"
  by (subst attempt_loop.simps)
     (simp add: Let_def split: prod.splits completion.splits step.splits)

lemma zFetch_valid:
  "new_URL P (url options) = Inr u \<Longrightarrow>
   zFetch P options transport = attempt_loop P transport (scope_of P options u) 0"
  by (simp add: zFetch_def)

lemma scope_of_fields:
  "opts (scope_of P options u) = options"
  "retryConfig (scope_of P options u) = normalize_retry (retry options)"
  "requestUrl (scope_of P options u) =
     u \<lparr> search := search u @
          (case searchParams options of None \<Rightarrow> [] | Some ps \<Rightarrow> appended ps) \<rparr>"
  "timeout_ms (scope_of P options u) =
     (case timeout options of None \<Rightarrow> DEFAULT_TIMEOUT | Some t \<Rightarrow> t)"
  by (simp_all add: scope_of_def split: prod.splits)

text \<open>The equations that evaluate a concrete run.\<close>

lemmas run_simps = zFetch_def scope_of_def demo_options_def demo_def demo_parse_def
  demo_URL_toString_def count_schema_def json_response_def serializeBody_def new_Headers_def
  normalize_retry_def DEFAULT_TIMEOUT_def attempt_loop.simps try_block_def catch_block_def
  fetch_def attempt_prologue_def attempt_request_def ok_def read_data_def read_errorData_def
  response_text_def response_json_def parse_or_text_def bare_error_def retry_pause_def
  retry_delay_def retry_backoff_def AbortError_def Let_def show_nat.simps

section \<open>The streaming variant\<close>

text \<open>
  C9.  Whatever the options and whatever the transport does, \<^verbatim>\<open>zFetch.stream\<close> calls
  \<^verbatim>\<open>fetch\<close> exactly once, with the URL as the caller gave it: the request does not
  depend on \<^verbatim>\<open>searchParams\<close>.  It sets no timer, creates no controller and passes no
  controller's signal.  \<^verbatim>\<open>zFetch\<close>, on a URL that parses, starts with a controller and
  a timer and calls the parsed URL with the parameters appended.
\<close>

theorem stream_single_call_verbatim_url:
  "fetches (snd (stream P options net)) = [stream_request P options] \<and>
   req_url (stream_request P options) = url options \<and>
   stream_request P (options \<lparr> searchParams := ps \<rparr>) = stream_request P options \<and>
   timers (snd (stream P options net)) = [] \<and>
   controllers (snd (stream P options net)) = 0 \<and>
   req_signal (stream_request P options) \<noteq> Controller k \<and>
   (new_URL P (url options) = Inr u \<longrightarrow>
      (\<exists>rest. snd (zFetch P options transport) =
         NewController #
         SetTimeout (case timeout options of None \<Rightarrow> DEFAULT_TIMEOUT | Some t \<Rightarrow> t) # rest) \<and>
      (\<exists>q more. fetches (snd (zFetch P options transport)) = q # more \<and>
         req_url q =
           URL_toString P
             (u \<lparr> search := search u @
                  (case searchParams options of None \<Rightarrow> [] | Some qs \<Rightarrow> appended qs) \<rparr>)))"
proof -
  have one: "fetches (snd (stream P options net)) = [stream_request P options]"
    by (simp add: stream_trace read_loop_quiet split: net_outcome.splits option.splits)
  have quiet: "timers (snd (stream P options net)) = [] \<and>
      controllers (snd (stream P options net)) = 0"
    by (simp add: stream_trace read_loop_quiet split: net_outcome.splits option.splits)
  have req: "req_url (stream_request P options) = url options \<and>
      stream_request P (options \<lparr> searchParams := ps \<rparr>) = stream_request P options \<and>
      req_signal (stream_request P options) \<noteq> Controller k"
    by (simp add: stream_request_def split: prod.splits option.splits)
  have exec: "new_URL P (url options) = Inr u \<longrightarrow>
      (\<exists>rest. snd (zFetch P options transport) =
         NewController #
         SetTimeout (case timeout options of None \<Rightarrow> DEFAULT_TIMEOUT | Some t \<Rightarrow> t) # rest) \<and>
      (\<exists>q more. fetches (snd (zFetch P options transport)) = q # more \<and>
         req_url q =
           URL_toString P
             (u \<lparr> search := search u @
                  (case searchParams options of None \<Rightarrow> [] | Some qs \<Rightarrow> appended qs) \<rparr>))"
  proof
    assume u: "new_URL P (url options) = Inr u"
    obtain rest where rest: "snd (zFetch P options transport) =
        attempt_prologue P (scope_of P options u) (0 + 1) @ rest"
      using attempt_loop_starts [of P transport "scope_of P options u" 0] zFetch_valid [OF u]
      by auto
    have "\<exists>rest'. snd (zFetch P options transport) =
         NewController #
         SetTimeout (case timeout options of None \<Rightarrow> DEFAULT_TIMEOUT | Some t \<Rightarrow> t) # rest'"
      by (simp add: rest attempt_prologue_def scope_of_fields)
    moreover have "\<exists>q more. fetches (snd (zFetch P options transport)) = q # more \<and>
         req_url q =
           URL_toString P
             (u \<lparr> search := search u @
                  (case searchParams options of None \<Rightarrow> [] | Some qs \<Rightarrow> appended qs) \<rparr>)"
      by (simp add: rest fetches_append attempt_prologue_reads attempt_request_def
            scope_of_fields)
    ultimately show "(\<exists>rest. snd (zFetch P options transport) =
         NewController #
         SetTimeout (case timeout options of None \<Rightarrow> DEFAULT_TIMEOUT | Some t \<Rightarrow> t) # rest) \<and>
      (\<exists>q more. fetches (snd (zFetch P options transport)) = q # more \<and>
         req_url q =
           URL_toString P
             (u \<lparr> search := search u @
                  (case searchParams options of None \<Rightarrow> [] | Some qs \<Rightarrow> appended qs) \<rparr>))"
      by simp
  qed
  show ?thesis using one quiet req exec by simp
qed

theorem stream_single_call_verbatim_url_witness:
  "fetches (snd (stream demo
       (demo_options \<lparr> searchParams := Some [(''page'', Some (PNumber 2))] \<rparr>) Hangs)) =
     [\<lparr> req_url = ''https://api.example.com/items'', req_headers = [], req_body = None,
        req_signal = NoRef, req_method = None \<rparr>] \<and>
   (\<exists>q more. fetches (snd (zFetch demo
       (demo_options \<lparr> searchParams := Some [(''page'', Some (PNumber 2))] \<rparr>)
       (\<lambda>k. Hangs))) = q # more \<and>
      req_url q = ''https://api.example.com/items?page=2'')"
  using stream_single_call_verbatim_url [where P = demo and net = Hangs
      and options = "demo_options \<lparr> searchParams := Some [(''page'', Some (PNumber 2))] \<rparr>"
      and transport = "\<lambda>k. Hangs" and ps = None and k = 1
      and u = "\<lparr> location = ''https://api.example.com/items'', search = [] \<rparr>"]
  by (simp add: demo_def demo_options_def stream_request_def serializeBody_def new_Headers_def
        demo_URL_toString_def show_int_def show_nat.simps)

lemma read_loop_concat:
  "read_loop P sch st cs =
     concat (map (\<lambda>chunk.
        Validate st (case JSON_parse P chunk of Inr j \<Rightarrow> j | Inl _ \<Rightarrow> JStr chunk) #
        (case sch (case JSON_parse P chunk of Inr j \<Rightarrow> j | Inl _ \<Rightarrow> JStr chunk) of
           Success v \<Rightarrow> [OnChunk v]
         | Failure _ \<Rightarrow> [])) cs)"
  by (induction cs) (simp_all add: Let_def parse_or_text_def)

text \<open>
  C7, as amended.  When the call resolves with a body whose reads do not fail, the run
  ends without an error whatever the fragments are.  The data of a fragment is its JSON
  value when \<^verbatim>\<open>JSON.parse\<close> accepts it and the fragment itself, as a string, when it
  does not.  Each fragment's data is validated exactly once; \<^verbatim>\<open>onChunk\<close> receives, in
  the order of the fragments, the validated value of each fragment whose data the schema
  accepts and nothing for the others.  So a fragment is dropped exactly when the schema
  rejects its data: one that is not JSON is still delivered when the schema accepts its
  raw text.  No call is repeated and no pause is made, and the effects of a sequence of
  fragments are those of its first part followed by those of the rest: nothing is
  carried over a fragment boundary.
\<close>

theorem stream_fragments_amended:
  assumes "body_chunks r = Some cs" and "read_error r = None"
  shows "fst (stream P options (Resolves r)) = Resolved () \<and>
    snd (stream P options (Resolves r)) =
      Fetch (stream_request P options) #
      concat (map (\<lambda>chunk.
        Validate (status r)
          (case JSON_parse P chunk of Inr j \<Rightarrow> j | Inl _ \<Rightarrow> JStr chunk) #
        (case schema options
                (case JSON_parse P chunk of Inr j \<Rightarrow> j | Inl _ \<Rightarrow> JStr chunk) of
           Success v \<Rightarrow> [OnChunk v]
         | Failure _ \<Rightarrow> [])) cs) \<and>
    chunks_delivered (snd (stream P options (Resolves r))) =
      concat (map (\<lambda>chunk.
        case schema options
               (case JSON_parse P chunk of Inr j \<Rightarrow> j | Inl _ \<Rightarrow> JStr chunk) of
          Success v \<Rightarrow> [v]
        | Failure _ \<Rightarrow> []) cs) \<and>
    validations (snd (stream P options (Resolves r))) =
      map (\<lambda>chunk. (status r,
             case JSON_parse P chunk of Inr j \<Rightarrow> j | Inl _ \<Rightarrow> JStr chunk)) cs \<and>
    fetches (snd (stream P options (Resolves r))) = [stream_request P options] \<and>
    waits (snd (stream P options (Resolves r))) = [] \<and>
    (\<forall>xs ys. cs = xs @ ys \<longrightarrow>
       snd (stream P options (Resolves r)) =
         Fetch (stream_request P options) #
         read_loop P (schema options) (status r) xs @
         read_loop P (schema options) (status r) ys)"
proof -
  have tr: "snd (stream P options (Resolves r)) =
      Fetch (stream_request P options) # read_loop P (schema options) (status r) cs"
    and res: "fst (stream P options (Resolves r)) = Resolved ()"
    using assms by (simp_all add: stream_def)
  have full: "snd (stream P options (Resolves r)) =
      Fetch (stream_request P options) #
      concat (map (\<lambda>chunk.
        Validate (status r)
          (case JSON_parse P chunk of Inr j \<Rightarrow> j | Inl _ \<Rightarrow> JStr chunk) #
        (case schema options
                (case JSON_parse P chunk of Inr j \<Rightarrow> j | Inl _ \<Rightarrow> JStr chunk) of
           Success v \<Rightarrow> [OnChunk v]
         | Failure _ \<Rightarrow> [])) cs)"
    unfolding tr by (simp add: read_loop_concat)
  have del: "chunks_delivered (snd (stream P options (Resolves r))) =
      concat (map (\<lambda>chunk.
        case schema options
               (case JSON_parse P chunk of Inr j \<Rightarrow> j | Inl _ \<Rightarrow> JStr chunk) of
          Success v \<Rightarrow> [v]
        | Failure _ \<Rightarrow> []) cs)"
    unfolding tr by (simp add: read_loop_delivered parse_or_text_def)
  have val: "validations (snd (stream P options (Resolves r))) =
      map (\<lambda>chunk. (status r,
             case JSON_parse P chunk of Inr j \<Rightarrow> j | Inl _ \<Rightarrow> JStr chunk)) cs"
    unfolding tr by (simp add: read_loop_validations parse_or_text_def)
  have quiet: "fetches (snd (stream P options (Resolves r))) = [stream_request P options] \<and>
      waits (snd (stream P options (Resolves r))) = []"
    unfolding tr by (simp add: read_loop_quiet)
  have split: "\<forall>xs ys. cs = xs @ ys \<longrightarrow>
       snd (stream P options (Resolves r)) =
         Fetch (stream_request P options) #
         read_loop P (schema options) (status r) xs @
         read_loop P (schema options) (status r) ys"
    unfolding tr by (simp add: read_loop_append)
  show ?thesis
    using res full del val quiet split by blast
qed

theorem stream_fragments_amended_witness:
  \<open>fst (stream demo demo_options
      (Resolves \<lparr> status = 200, statusText = ''OK'', content_type = None,
                  body_chunks = Some [''{"count":1}'', ''not json'', ''{"count":2}''],
                  read_error = None \<rparr>)) = Resolved () \<and>
   chunks_delivered (snd (stream demo demo_options
      (Resolves \<lparr> status = 200, statusText = ''OK'', content_type = None,
                  body_chunks = Some [''{"count":1}'', ''not json'', ''{"count":2}''],
                  read_error = None \<rparr>))) =
     [JObj [(''count'', JNum 1)], JObj [(''count'', JNum 2)]] \<and>
   validations (snd (stream demo demo_options
      (Resolves \<lparr> status = 200, statusText = ''OK'', content_type = None,
                  body_chunks = Some [''{"count":1}'', ''not json'', ''{"count":2}''],
                  read_error = None \<rparr>))) =
     [(200, JObj [(''count'', JNum 1)]), (200, JStr ''not json''),
      (200, JObj [(''count'', JNum 2)])] \<and>
   chunks_delivered (snd (stream demo (demo_options \<lparr> schema := string_schema \<rparr>)
      (Resolves \<lparr> status = 200, statusText = ''OK'', content_type = None,
                  body_chunks = Some [''{"count":1}'', ''not json''],
                  read_error = None \<rparr>))) =
     [JStr ''not json'']\<close>
  using stream_fragments_amended [where P = demo and options = demo_options
      and cs = \<open>[''{"count":1}'', ''not json'', ''{"count":2}'']\<close>
      and r = \<open>\<lparr> status = 200, statusText = ''OK'', content_type = None,
                  body_chunks = Some [''{"count":1}'', ''not json'', ''{"count":2}''],
                  read_error = None \<rparr>\<close>]
    stream_fragments_amended [where P = demo
      and options = \<open>demo_options \<lparr> schema := string_schema \<rparr>\<close>
      and cs = \<open>[''{"count":1}'', ''not json'']\<close>
      and r = \<open>\<lparr> status = 200, statusText = ''OK'', content_type = None,
                  body_chunks = Some [''{"count":1}'', ''not json''],
                  read_error = None \<rparr>\<close>]
  by (simp add: demo_def demo_options_def demo_parse_def count_schema_def string_schema_def)

text \<open>
  C7 as stated fails on a fragment that is not JSON when the schema accepts strings:
  \<^verbatim>\<open>JSON.parse\<close> rejects the fragment, yet it is not dropped: \<^verbatim>\<open>onChunk\<close> receives it
  as a string.
\<close>

theorem stream_unparsed_fragment_counterexample:
  \<open>JSON_parse demo ''not json'' = Inl (JsError False ''SyntaxError'' ''Unexpected token'') \<and>
   stream demo (demo_options \<lparr> schema := string_schema \<rparr>)
      (Resolves \<lparr> status = 200, statusText = ''OK'', content_type = None,
                  body_chunks = Some [''not json''], read_error = None \<rparr>) =
     (Resolved (),
      [Fetch \<lparr> req_url = ''https://api.example.com/items'', req_headers = [],
               req_body = None, req_signal = NoRef, req_method = None \<rparr>,
       Validate 200 (JStr ''not json''), OnChunk (JStr ''not json'')]) \<and>
   chunks_delivered (snd (stream demo (demo_options \<lparr> schema := string_schema \<rparr>)
      (Resolves \<lparr> status = 200, statusText = ''OK'', content_type = None,
                  body_chunks = Some [''not json''], read_error = None \<rparr>))) \<noteq> []\<close>
  by (simp add: stream_def stream_request_def serializeBody_def new_Headers_def demo_def
        demo_options_def demo_parse_def parse_or_text_def string_schema_def Let_def)

text \<open>
  C8 fails on the code: when the response has no body, \<^verbatim>\<open>zFetch.stream\<close> throws a
  plain \<^verbatim>\<open>Error\<close>, not a \<^verbatim>\<open>ZodFetchError\<close> of kind \<^verbatim>\<open>unknown\<close>.
\<close>

theorem stream_null_body_raw_error:
  "stream demo demo_options
     (Resolves \<lparr> status = 200, statusText = ''OK'', content_type = None,
                 body_chunks = None, read_error = None \<rparr>) =
   (Rejected (Plain (JsError False ''Error'' ''Response body is null'')),
    [Fetch \<lparr> req_url = ''https://api.example.com/items'', req_headers = [],
             req_body = None, req_signal = NoRef, req_method = None \<rparr>])"
  by (simp add: stream_def stream_request_def demo_options_def serializeBody_def
        new_Headers_def)

text \<open>
  C2 fails on the code for the streaming variant: the fragments of a response with
  status 500 are passed to the schema, and the accepted one to \<^verbatim>\<open>onChunk\<close>.
\<close>

theorem stream_validates_failure_status:
  \<open>validations (snd (stream demo demo_options
      (Resolves \<lparr> status = 500, statusText = ''Internal Server Error'', content_type = None,
                  body_chunks = Some [''{"count":1}''], read_error = None \<rparr>))) =
     [(500, JObj [(''count'', JNum 1)])] \<and>
   chunks_delivered (snd (stream demo demo_options
      (Resolves \<lparr> status = 500, statusText = ''Internal Server Error'', content_type = None,
                  body_chunks = Some [''{"count":1}''], read_error = None \<rparr>))) =
     [JObj [(''count'', JNum 1)]]\<close>
  by (simp add: stream_def demo_def demo_options_def demo_parse_def parse_or_text_def
        count_schema_def Let_def)

section \<open>The attempt loop\<close>

lemma loop_returned:
  "try_block P S (fetch (signal (opts S)) transport (a + 1)) = (Returned v, es) \<Longrightarrow>
   attempt_loop P transport S a = (Resolved v, attempt_prologue P S (a + 1) @ es)"
  by (subst attempt_loop.simps) (simp add: Let_def)

lemma loop_thrown:
  "try_block P S (fetch (signal (opts S)) transport (a + 1)) = (Threw error, es) \<Longrightarrow>
   catch_block P S (a + 1) error = Throw x \<Longrightarrow>
   attempt_loop P transport S a =
     (Rejected x, attempt_prologue P S (a + 1) @ es @ [ClearTimeout])"
  by (subst attempt_loop.simps) (simp add: Let_def)

lemma loop_continue:
  "try_block P S (fetch (signal (opts S)) transport (a + 1)) = (Threw error, es) \<Longrightarrow>
   catch_block P S (a + 1) error = Continue ms \<Longrightarrow>
   attempt_loop P transport S a =
     (fst (attempt_loop P transport S (a + 1)),
      attempt_prologue P S (a + 1) @ es @ [ClearTimeout, Wait ms] @
      snd (attempt_loop P transport S (a + 1)))"
  by (subst attempt_loop.simps) (simp add: Let_def split: prod.splits)

lemma catch_continue:
  assumes "catch_block P S k error = Continue ms"
  shows "ms = retry_pause (retryConfig S) k" and "int k \<le> attempts (retryConfig S)"
    and "\<not> signal_aborted (signal (opts S)) k"
    and "isAbort error \<or> isNetworkError error \<or> isServerError error"
  using assms
  by (auto simp: catch_block_def Let_def split: if_splits exn.splits)

lemma catch_aborted:
  "signal_aborted (signal (opts S)) k \<Longrightarrow>
   catch_block P S k error =
     Throw (ZFE (bare_error ''Request aborted'' (URL_toString P (requestUrl S)) Abort))"
  by (simp add: catch_block_def)

lemma catch_retry:
  "\<not> signal_aborted (signal (opts S)) k \<Longrightarrow> int k \<le> attempts (retryConfig S) \<Longrightarrow>
   isAbort error \<or> isNetworkError error \<or> isServerError error \<Longrightarrow>
   catch_block P S k error = Continue (retry_pause (retryConfig S) k)"
  by (auto simp: catch_block_def)

lemma catch_classified:
  "\<not> signal_aborted (signal (opts S)) k \<Longrightarrow>
   \<not> (int k \<le> attempts (retryConfig S) \<and> isServerError (ZFE z)) \<Longrightarrow>
   catch_block P S k (ZFE z) = Throw (ZFE z)"
  by (auto simp: catch_block_def)

lemma catch_timeout:
  "\<not> signal_aborted (signal (opts S)) k \<Longrightarrow> \<not> int k \<le> attempts (retryConfig S) \<Longrightarrow>
   Error_named e ''AbortError'' \<Longrightarrow>
   catch_block P S k (Plain e) =
     Throw (ZFE (bare_error ''Request timed out'' (URL_toString P (requestUrl S)) Timeout))"
  by (auto simp: catch_block_def)

lemma catch_network:
  "\<not> signal_aborted (signal (opts S)) k \<Longrightarrow> \<not> Error_named e ''AbortError'' \<Longrightarrow>
   \<not> (int k \<le> attempts (retryConfig S) \<and> TypeError_saying e ''Failed to fetch'') \<Longrightarrow>
   catch_block P S k (Plain e) =
     Throw (ZFE \<lparr> e_message = message_of e, e_status = None, e_statusText = None,
                  e_url = Some (URL_toString P (requestUrl S)), e_response = None,
                  e_issues = None, e_data = Some (Caught e), e_cause = Network \<rparr>)"
  by (auto simp: catch_block_def bare_error_def)

lemma listener_fires_aborted: "listener_fires sig k \<Longrightarrow> signal_aborted sig k"
  by (induction sig k rule: listener_fires.induct) simp_all

lemma fetch_not_aborted:
  "\<not> signal_aborted sig k \<Longrightarrow>
   fetch sig transport k =
     (case transport k of Resolves r \<Rightarrow> Inr r | Rejects e \<Rightarrow> Inl e | Hangs \<Rightarrow> Inl AbortError)"
  using listener_fires_aborted [of sig k] by (auto simp: fetch_def)

lemma loop_calls_pos: "1 \<le> length (fetches (snd (attempt_loop P transport S a)))"
proof -
  obtain rest where "snd (attempt_loop P transport S a) = attempt_prologue P S (a + 1) @ rest"
    using attempt_loop_starts by blast
  then show ?thesis
    by (simp add: fetches_append attempt_prologue_reads)
qed

text \<open>
  Every run of the loop from counter \<open>a\<close> is the calls of attempts \<open>a + 1\<close>, \<open>a + 2\<close>,
  ... in order, each followed, when another call follows it, by the pause computed from
  its own attempt number.
\<close>

lemma loop_timeline:
  "timeline (snd (attempt_loop P transport S a)) =
     concat (map (\<lambda>k. [Inl k, Inr (retry_pause (retryConfig S) k)])
       [a + 1 ..< a + length (fetches (snd (attempt_loop P transport S a)))]) @
     [Inl (a + length (fetches (snd (attempt_loop P transport S a))))] \<and>
   waits (snd (attempt_loop P transport S a)) =
     map (retry_pause (retryConfig S))
       [a + 1 ..< a + length (fetches (snd (attempt_loop P transport S a)))]"
proof (induction P transport S a rule: attempt_loop.induct)
  case (1 P transport S a)
  obtain c es where t: "try_block P S (fetch (signal (opts S)) transport (a + 1)) = (c, es)"
    by (cases "try_block P S (fetch (signal (opts S)) transport (a + 1))") auto
  have quiet: "fetches es = [] \<and> waits es = [] \<and> timeline es = []"
    using try_block_effects [of P S "fetch (signal (opts S)) transport (a + 1)"] t by simp
  show ?case
  proof (cases c)
    case (Returned v)
    then show ?thesis
      using loop_returned [of P S transport a v es] t quiet
      by (simp add: fetches_append waits_append timeline_append attempt_prologue_reads)
  next
    case (Threw error)
    show ?thesis
    proof (cases "catch_block P S (a + 1) error")
      case (Throw x)
      then show ?thesis
        using loop_thrown [of P S transport a error es x] t Threw quiet
        by (simp add: fetches_append waits_append timeline_append attempt_prologue_reads)
    next
      case (Continue ms)
      define rest where "rest = snd (attempt_loop P transport S (a + 1))"
      define n where "n = length (fetches rest)"
      define ks where "ks = [a + 1 + 1 ..< a + 1 + n]"
      have ms: "ms = retry_pause (retryConfig S) (a + 1)"
        using catch_continue(1) [OF Continue] .
      have IH: "timeline rest =
          concat (map (\<lambda>k. [Inl k, Inr (retry_pause (retryConfig S) k)]) ks) @
          [Inl (a + 1 + n)]"
        and IHw: "waits rest = map (retry_pause (retryConfig S)) ks"
        using "1.IH" [OF refl t [symmetric] Threw Continue]
        by (simp_all add: rest_def n_def ks_def)
      have pos: "1 \<le> n"
        unfolding n_def rest_def by (rule loop_calls_pos)
      have tr: "snd (attempt_loop P transport S a) =
          attempt_prologue P S (a + 1) @ es @ [ClearTimeout, Wait ms] @ rest"
        using loop_continue [of P S transport a error es ms] t Threw Continue
        by (simp add: rest_def)
      have len: "length (fetches (snd (attempt_loop P transport S a))) = 1 + n"
        by (simp add: tr fetches_append attempt_prologue_reads quiet n_def)
      have upt: "[a + 1 ..< a + (1 + n)] = (a + 1) # ks"
        using pos by (simp add: upt_conv_Cons ks_def)
      have tl: "timeline (snd (attempt_loop P transport S a)) =
          Inl (a + 1) # Inr ms # timeline rest"
        by (simp add: tr timeline_append attempt_prologue_reads quiet)
      have ws: "waits (snd (attempt_loop P transport S a)) = ms # waits rest"
        by (simp add: tr waits_append attempt_prologue_reads quiet)
      show ?thesis
        unfolding len upt tl ws IH IHw ms by (simp add: add.assoc)
    qed
  qed
qed

text \<open>No run makes more calls than the attempts the policy leaves.\<close>

lemma loop_calls_bound:
  "length (fetches (snd (attempt_loop P transport S a))) \<le>
     nat (attempts (retryConfig S) - int a) + 1"
proof (induction P transport S a rule: attempt_loop.induct)
  case (1 P transport S a)
  obtain c es where t: "try_block P S (fetch (signal (opts S)) transport (a + 1)) = (c, es)"
    by (cases "try_block P S (fetch (signal (opts S)) transport (a + 1))") auto
  have quiet: "fetches es = []"
    using try_block_effects [of P S "fetch (signal (opts S)) transport (a + 1)"] t by simp
  show ?case
  proof (cases c)
    case (Returned v)
    then show ?thesis
      using loop_returned [of P S transport a v es] t quiet
      by (simp add: fetches_append attempt_prologue_reads)
  next
    case (Threw error)
    show ?thesis
    proof (cases "catch_block P S (a + 1) error")
      case (Throw x)
      then show ?thesis
        using loop_thrown [of P S transport a error es x] t Threw quiet
        by (simp add: fetches_append attempt_prologue_reads)
    next
      case (Continue ms)
      have le: "int (a + 1) \<le> attempts (retryConfig S)"
        using catch_continue(2) [OF Continue] .
      have IH: "length (fetches (snd (attempt_loop P transport S (a + 1)))) \<le>
          nat (attempts (retryConfig S) - int (a + 1)) + 1"
        using "1.IH" [OF refl t [symmetric] Threw Continue] by simp
      have tr: "snd (attempt_loop P transport S a) =
          attempt_prologue P S (a + 1) @ es @ [ClearTimeout, Wait ms] @
          snd (attempt_loop P transport S (a + 1))"
        using loop_continue [of P S transport a error es ms] t Threw Continue by simp
      show ?thesis
        using IH le by (simp add: tr fetches_append attempt_prologue_reads quiet)
    qed
  qed
qed

lemma try_block_eligible:
  assumes "retry_eligible (transport k)" and "\<not> signal_aborted (signal (opts S)) k"
  shows "\<exists>error es. try_block P S (fetch (signal (opts S)) transport k) = (Threw error, es) \<and>
           (isAbort error \<or> isNetworkError error \<or> isServerError error) \<and>
           (\<forall>z. error = ZFE z \<longrightarrow> e_cause z = Network)"
proof (cases "transport k")
  case (Resolves r)
  then have "500 \<le> status r" using assms(1) by simp
  then show ?thesis
    using Resolves assms(2)
    by (simp add: fetch_not_aborted try_block_def ok_def)
next
  case (Rejects e)
  then show ?thesis
    using assms by (auto simp: fetch_not_aborted try_block_def)
next
  case Hangs
  then show ?thesis
    using assms(2) by (simp add: fetch_not_aborted try_block_def AbortError_def)
qed

text \<open>
  When every remaining attempt fails in a way the code retries, the loop uses every
  attempt the policy leaves and ends with a \<^verbatim>\<open>ZodFetchError\<close>.
\<close>

lemma loop_all_fail:
  "\<forall>k. a < k \<and> int k \<le> attempts (retryConfig S) + 1 \<longrightarrow>
        retry_eligible (transport k) \<and> \<not> signal_aborted (signal (opts S)) k \<Longrightarrow>
   int a \<le> attempts (retryConfig S) \<Longrightarrow>
   length (fetches (snd (attempt_loop P transport S a))) =
     nat (attempts (retryConfig S) - int a) + 1 \<and>
   (\<exists>z. fst (attempt_loop P transport S a) = Rejected (ZFE z) \<and>
        (e_cause z = Network \<or> e_cause z = Timeout))"
proof (induction P transport S a rule: attempt_loop.induct)
  case (1 P transport S a)
  have here: "retry_eligible (transport (a + 1))"
    "\<not> signal_aborted (signal (opts S)) (a + 1)"
    using "1.prems" by auto
  obtain error es where
    t: "try_block P S (fetch (signal (opts S)) transport (a + 1)) = (Threw error, es)"
    and el: "isAbort error \<or> isNetworkError error \<or> isServerError error"
    and cl: "\<forall>z. error = ZFE z \<longrightarrow> e_cause z = Network"
    using try_block_eligible [where transport = transport and k = "a + 1" and S = S and P = P]
      here by blast
  have quiet: "fetches es = []"
    using try_block_effects [of P S "fetch (signal (opts S)) transport (a + 1)"] t by simp
  show ?case
  proof (cases "int (a + 1) \<le> attempts (retryConfig S)")
    case True
    have c: "catch_block P S (a + 1) error = Continue (retry_pause (retryConfig S) (a + 1))"
      using catch_retry [OF here(2) True el] .
    have IH: "length (fetches (snd (attempt_loop P transport S (a + 1)))) =
        nat (attempts (retryConfig S) - int (a + 1)) + 1 \<and>
        (\<exists>z. fst (attempt_loop P transport S (a + 1)) = Rejected (ZFE z) \<and>
             (e_cause z = Network \<or> e_cause z = Timeout))"
      using "1.IH" [OF refl t [symmetric] refl c] "1.prems"(1) True by simp
    show ?thesis
      using loop_continue [OF t c] IH True
      by (simp add: fetches_append attempt_prologue_reads quiet)
  next
    case False
    have last: "\<exists>z. catch_block P S (a + 1) error = Throw (ZFE z) \<and>
        (e_cause z = Network \<or> e_cause z = Timeout)"
    proof (cases error)
      case (ZFE z)
      then show ?thesis
        using catch_classified [OF here(2), of z P] False cl by simp
    next
      case (Plain e)
      show ?thesis
      proof (cases "Error_named e ''AbortError''")
        case True
        then show ?thesis
          using catch_timeout [OF here(2) False, of e P] Plain by (simp add: bare_error_def)
      next
        case no: False
        then show ?thesis
          using catch_network [OF here(2) no, of P] False Plain by simp
      qed
    qed
    then obtain z where z: "catch_block P S (a + 1) error = Throw (ZFE z)"
      and k: "e_cause z = Network \<or> e_cause z = Timeout"
      by blast
    show ?thesis
      using loop_thrown [OF t z] k False "1.prems"(2)
      by (simp add: fetches_append attempt_prologue_reads quiet)
  qed
qed

lemma retry_pause_lower:
  assumes "0 \<le> configured_delay c"
  shows "configured_delay c \<le> retry_pause c k"
proof -
  have d: "configured_delay c \<le> retry_delay c"
    using assms by (simp add: configured_delay_def retry_delay_def split: option.splits)
  have b: "1 \<le> retry_backoff c k"
    by (simp add: retry_backoff_def)
  have "retry_delay c * 1 \<le> retry_delay c * retry_backoff c k"
    using d assms b by (intro mult_left_mono) auto
  then show ?thesis
    using d by (simp add: retry_pause_def)
qed

lemma sum_list_lower:
  "\<forall>x \<in> set xs. (c::int) \<le> f x \<Longrightarrow> int (length xs) * c \<le> sum_list (map f xs)"
  by (induction xs) (auto simp: algebra_simps)

section \<open>Retries\<close>

lemma sum_list_pow2:
  "sum_list (map (\<lambda>k. (2::int) ^ (k - 1)) [1 ..< n + 1]) = 2 ^ n - 1"
  by (induction n) simp_all

lemma sum_list_scaled:
  "sum_list (map (\<lambda>k. (a::int) * f k) ks) = a * sum_list (map f ks)"
  by (induction ks) (simp_all add: algebra_simps)

text \<open>
  C3.  Take a policy with \<open>attempts = N\<close>, \<open>N\<close> not negative, and a configured delay
  \<open>D\<close> (1000 when none is given) that is not negative, and a run in which each of the
  attempts 1 to \<open>N + 1\<close> fails in a way the code retries (the timer runs first, the call
  rejects with \<^verbatim>\<open>AbortError\<close> or with \<^verbatim>\<open>TypeError("Failed to fetch")\<close>, or the status
  is 500 or more) while the caller's signal is not aborted.  Then \<^verbatim>\<open>zFetch\<close> makes
  exactly \<open>N + 1\<close> calls, one after the other with one pause between two calls, and then
  rejects with a \<^verbatim>\<open>ZodFetchError\<close>.  The pause after attempt \<open>k\<close> is the delay in use
  (\<open>D\<close>, or 1000 when \<open>D\<close> is 0) times \<open>2 ^ (k - 1)\<close> under exponential backoff and
  times 1 otherwise; so the pauses sum to at least \<open>D\<close> times the multiplier of each of
  the \<open>N\<close> retried attempts, hence to at least \<open>N\<close> times \<open>D\<close>, and in all to the delay
  in use times \<open>2 ^ N - 1\<close> under exponential backoff and times \<open>N\<close> otherwise.  Under
  such a policy no run at all makes more than \<open>N + 1\<close> calls.
\<close>

theorem zFetch_retry_exhaustion:
  assumes "new_URL P (url options) = Inr u"
    and "c = normalize_retry (retry options)"
    and "D = (case delay c of None \<Rightarrow> 1000 | Some d \<Rightarrow> d)"
    and "0 \<le> attempts c"
    and "0 \<le> D"
    and "\<forall>k. 1 \<le> k \<and> int k \<le> attempts c + 1 \<longrightarrow>
           retry_eligible (transport k) \<and> \<not> signal_aborted (signal options) k"
  shows "length (fetches (snd (zFetch P options transport))) = nat (attempts c) + 1 \<and>
    (\<exists>z. fst (zFetch P options transport) = Rejected (ZFE z) \<and>
         (e_cause z = Network \<or> e_cause z = Timeout)) \<and>
    timeline (snd (zFetch P options transport)) =
      concat (map (\<lambda>k. [Inl k,
          Inr ((if D = 0 then 1000 else D) *
               (if backoff c = Some Exponential then 2 ^ (k - 1) else 1))])
        [1 ..< nat (attempts c) + 1]) @
      [Inl (nat (attempts c) + 1)] \<and>
    waits (snd (zFetch P options transport)) =
      map (\<lambda>k. (if D = 0 then 1000 else D) *
                (if backoff c = Some Exponential then 2 ^ (k - 1) else 1))
        [1 ..< nat (attempts c) + 1] \<and>
    sum_list (map (\<lambda>k. D * (if backoff c = Some Exponential then 2 ^ (k - 1) else 1))
        [1 ..< nat (attempts c) + 1])
      \<le> sum_list (waits (snd (zFetch P options transport))) \<and>
    attempts c * D \<le> sum_list (waits (snd (zFetch P options transport))) \<and>
    (backoff c = Some Exponential \<longrightarrow>
       sum_list (waits (snd (zFetch P options transport))) =
         (if D = 0 then 1000 else D) * (2 ^ nat (attempts c) - 1)) \<and>
    (backoff c \<noteq> Some Exponential \<longrightarrow>
       sum_list (waits (snd (zFetch P options transport))) =
         (if D = 0 then 1000 else D) * attempts c) \<and>
    (\<forall>T. length (fetches (snd (zFetch P options T))) \<le> nat (attempts c) + 1)"
proof -
  let ?S = "scope_of P options u"
  let ?m = "\<lambda>k::nat. if backoff c = Some Exponential then (2::int) ^ (k - 1) else 1"
  let ?E = "if D = 0 then 1000 else D"
  have z: "zFetch P options transport = attempt_loop P transport ?S 0"
    using zFetch_valid [OF assms(1)] .
  have cfg: "retryConfig ?S = c" and sg: "signal (opts ?S) = signal options"
    by (simp_all add: scope_of_fields assms(2))
  have cd: "configured_delay c = D"
    by (simp add: configured_delay_def assms(3))
  have pause: "retry_pause c k = ?E * ?m k" for k
    by (simp add: retry_pause_def retry_delay_def retry_backoff_def assms(3)
          split: option.splits)
  have all: "length (fetches (snd (attempt_loop P transport ?S 0))) =
      nat (attempts (retryConfig ?S) - int 0) + 1 \<and>
      (\<exists>z. fst (attempt_loop P transport ?S 0) = Rejected (ZFE z) \<and>
           (e_cause z = Network \<or> e_cause z = Timeout))"
    using assms(4,6) by (intro loop_all_fail) (auto simp: cfg sg)
  then have n: "length (fetches (snd (zFetch P options transport))) = nat (attempts c) + 1"
    by (simp add: z cfg)
  define ks where "ks = [1 ..< nat (attempts c) + 1]"
  have len: "length ks = nat (attempts c)"
    by (simp add: ks_def)
  have tl0: "timeline (snd (zFetch P options transport)) =
      concat (map (\<lambda>k. [Inl k, Inr (retry_pause c k)]) ks) @ [Inl (nat (attempts c) + 1)]"
    and ws0: "waits (snd (zFetch P options transport)) = map (retry_pause c) ks"
    using loop_timeline [of P transport ?S 0] n by (simp_all add: z cfg ks_def)
  have tl: "timeline (snd (zFetch P options transport)) =
      concat (map (\<lambda>k. [Inl k, Inr (?E * ?m k)]) ks) @ [Inl (nat (attempts c) + 1)]"
    unfolding tl0 pause ..
  have ws: "waits (snd (zFetch P options transport)) = map (\<lambda>k. ?E * ?m k) ks"
    unfolding ws0 pause ..
  have lower: "D \<le> retry_pause c k" for k
    using retry_pause_lower [of c k] assms(5) by (simp add: cd)
  have "int (length ks) * configured_delay c \<le> sum_list (map (retry_pause c) ks)"
    by (rule sum_list_lower) (simp add: cd lower)
  then have sum: "attempts c * D \<le> sum_list (waits (snd (zFetch P options transport)))"
    using assms(4) unfolding ws0 len cd by simp
  have "sum_list (map (\<lambda>k. D * ?m k) ks) \<le> sum_list (map (\<lambda>k. ?E * ?m k) ks)"
    by (rule sum_list_mono) (auto intro: mult_right_mono)
  then have acc: "sum_list (map (\<lambda>k. D * ?m k) ks) \<le>
      sum_list (waits (snd (zFetch P options transport)))"
    unfolding ws .
  have expo: "backoff c = Some Exponential \<longrightarrow>
      sum_list (waits (snd (zFetch P options transport))) = ?E * (2 ^ nat (attempts c) - 1)"
  proof
    assume e: "backoff c = Some Exponential"
    have "sum_list (map (\<lambda>k. ?E * (2::int) ^ (k - 1)) ks) =
        ?E * sum_list (map (\<lambda>k. (2::int) ^ (k - 1)) ks)"
      by (rule sum_list_scaled)
    also have "\<dots> = ?E * (2 ^ nat (attempts c) - 1)"
      unfolding ks_def sum_list_pow2 ..
    finally show "sum_list (waits (snd (zFetch P options transport))) =
        ?E * (2 ^ nat (attempts c) - 1)"
      unfolding ws using e by simp
  qed
  have lin: "backoff c \<noteq> Some Exponential \<longrightarrow>
      sum_list (waits (snd (zFetch P options transport))) = ?E * attempts c"
  proof
    assume e: "backoff c \<noteq> Some Exponential"
    have "sum_list (map (\<lambda>k. ?E * (1::int)) ks) = ?E * sum_list (map (\<lambda>k. 1) ks)"
      by (rule sum_list_scaled)
    also have "\<dots> = ?E * int (length ks)"
      by (simp add: sum_list_triv)
    finally show "sum_list (waits (snd (zFetch P options transport))) = ?E * attempts c"
      unfolding ws len using e assms(4) by simp
  qed
  have bound: "\<forall>T. length (fetches (snd (zFetch P options T))) \<le> nat (attempts c) + 1"
  proof
    fix T
    show "length (fetches (snd (zFetch P options T))) \<le> nat (attempts c) + 1"
      using loop_calls_bound [of P T ?S 0] zFetch_valid [OF assms(1), of T]
      by (simp add: cfg)
  qed
  show ?thesis
    using n all tl ws acc sum expo lin bound unfolding ks_def z by blast
qed

theorem zFetch_retry_exhaustion_witness:
  "length (fetches (snd (zFetch demo
      (demo_options \<lparr> retry := Some (RetryOptions
          \<lparr> attempts = 3, delay = Some 50, backoff = Some Exponential \<rparr>) \<rparr>)
      (\<lambda>k. Resolves (json_response 500 ''oops''))))) = 4 \<and>
   timeline (snd (zFetch demo
      (demo_options \<lparr> retry := Some (RetryOptions
          \<lparr> attempts = 3, delay = Some 50, backoff = Some Exponential \<rparr>) \<rparr>)
      (\<lambda>k. Resolves (json_response 500 ''oops'')))) =
     [Inl 1, Inr 50, Inl 2, Inr 100, Inl 3, Inr 200, Inl 4] \<and>
   sum_list (waits (snd (zFetch demo
      (demo_options \<lparr> retry := Some (RetryOptions
          \<lparr> attempts = 3, delay = Some 50, backoff = Some Exponential \<rparr>) \<rparr>)
      (\<lambda>k. Resolves (json_response 500 ''oops''))))) = 350 \<and>
   length (fetches (snd (zFetch demo
      (demo_options \<lparr> retry := Some (RetryOptions
          \<lparr> attempts = 2, delay = Some 100, backoff = None \<rparr>) \<rparr>)
      (\<lambda>k. Resolves (json_response 500 ''oops''))))) = 3 \<and>
   timeline (snd (zFetch demo
      (demo_options \<lparr> retry := Some (RetryOptions
          \<lparr> attempts = 2, delay = Some 100, backoff = None \<rparr>) \<rparr>)
      (\<lambda>k. Resolves (json_response 500 ''oops'')))) =
     [Inl 1, Inr 100, Inl 2, Inr 100, Inl 3] \<and>
   (2::int) * 100 \<le> sum_list (waits (snd (zFetch demo
      (demo_options \<lparr> retry := Some (RetryOptions
          \<lparr> attempts = 2, delay = Some 100, backoff = None \<rparr>) \<rparr>)
      (\<lambda>k. Resolves (json_response 500 ''oops''))))) \<and>
   (\<exists>z. fst (zFetch demo
      (demo_options \<lparr> retry := Some (RetryOptions
          \<lparr> attempts = 2, delay = Some 100, backoff = None \<rparr>) \<rparr>)
      (\<lambda>k. Resolves (json_response 500 ''oops''))) = Rejected (ZFE z) \<and>
      e_status z = Some 500 \<and> e_cause z = Network)"
proof -
  let ?x = "\<lparr> attempts = 3, delay = Some 50, backoff = Some Exponential \<rparr>"
  let ?c = "\<lparr> attempts = 2, delay = Some 100, backoff = None \<rparr>"
  let ?X = "demo_options \<lparr> retry := Some (RetryOptions ?x) \<rparr>"
  let ?O = "demo_options \<lparr> retry := Some (RetryOptions ?c) \<rparr>"
  let ?T = "\<lambda>k::nat. Resolves (json_response 500 ''oops'')"
  have ux: "new_URL demo (url ?X) =
      Inr \<lparr> location = ''https://api.example.com/items'', search = [] \<rparr>"
    and u: "new_URL demo (url ?O) =
      Inr \<lparr> location = ''https://api.example.com/items'', search = [] \<rparr>"
    by (simp_all add: demo_def demo_options_def)
  have cx: "?x = normalize_retry (retry ?X)" and c: "?c = normalize_retry (retry ?O)"
    by (simp_all add: normalize_retry_def demo_options_def)
  have dx: "(50::int) = (case delay ?x of None \<Rightarrow> 1000 | Some d \<Rightarrow> d)"
    and d: "(100::int) = (case delay ?c of None \<Rightarrow> 1000 | Some d \<Rightarrow> d)"
    by simp_all
  have ax: "0 \<le> attempts ?x" and a: "0 \<le> attempts ?c" by simp_all
  have px: "(0::int) \<le> 50" and p: "(0::int) \<le> 100" by simp_all
  have fx: "\<forall>k. 1 \<le> k \<and> int k \<le> attempts ?x + 1 \<longrightarrow>
      retry_eligible (?T k) \<and> \<not> signal_aborted (signal ?X) k"
    and f: "\<forall>k. 1 \<le> k \<and> int k \<le> attempts ?c + 1 \<longrightarrow>
      retry_eligible (?T k) \<and> \<not> signal_aborted (signal ?O) k"
    by (simp_all add: json_response_def demo_options_def)
  have e: "\<exists>z. fst (zFetch demo ?O ?T) = Rejected (ZFE z) \<and>
      e_status z = Some 500 \<and> e_cause z = Network"
    by (simp add: run_simps)
  show ?thesis
    using zFetch_retry_exhaustion [OF ux cx dx ax px fx]
      zFetch_retry_exhaustion [OF u c d a p f] e
    by (simp add: upt_conv_Cons)
qed

text \<open>
  C4, as amended.  A bare number \<open>n\<close> is normalised to \<open>attempts = n\<close>, delay 1000,
  linear.  In every run of \<^verbatim>\<open>zFetch\<close> on a URL that parses, the pause between the call
  of attempt \<open>k\<close> and the next call is \<open>D * 2 ^ (k - 1)\<close> ms when the backoff is
  exponential and \<open>D\<close> ms otherwise, computed from \<open>k\<close> alone, where \<open>D\<close> is the
  configured delay when one is given and is not 0, and 1000 otherwise.
\<close>

theorem zFetch_backoff_amended:
  assumes "new_URL P (url options) = Inr u"
  shows "normalize_retry (Some (RetryCount n)) =
      \<lparr> attempts = n, delay = Some 1000, backoff = Some Linear \<rparr> \<and>
    timeline (snd (zFetch P options transport)) =
      concat (map (\<lambda>k. [Inl k,
          Inr ((case delay (normalize_retry (retry options)) of
                  None \<Rightarrow> 1000
                | Some d \<Rightarrow> if d = 0 then 1000 else d) *
               (if backoff (normalize_retry (retry options)) = Some Exponential
                then 2 ^ (k - 1) else 1))])
        [1 ..< length (fetches (snd (zFetch P options transport)))]) @
      [Inl (length (fetches (snd (zFetch P options transport))))]"
proof -
  have "timeline (snd (zFetch P options transport)) =
      concat (map (\<lambda>k. [Inl k, Inr (retry_pause (normalize_retry (retry options)) k)])
        [0 + 1 ..< 0 + length (fetches (snd (zFetch P options transport)))]) @
      [Inl (0 + length (fetches (snd (zFetch P options transport))))]"
    using loop_timeline [of P transport "scope_of P options u" 0]
    unfolding zFetch_valid [OF assms] scope_of_fields by blast
  then show ?thesis
    by (simp add: normalize_retry_def retry_pause_def retry_delay_def retry_backoff_def)
qed

theorem zFetch_backoff_amended_witness:
  "normalize_retry (Some (RetryCount 3)) =
     \<lparr> attempts = 3, delay = Some 1000, backoff = Some Linear \<rparr> \<and>
   timeline (snd (zFetch demo
      (demo_options \<lparr> retry := Some (RetryOptions
          \<lparr> attempts = 2, delay = Some 100, backoff = Some Exponential \<rparr>) \<rparr>)
      (\<lambda>k. Resolves (json_response 500 ''oops'')))) =
     [Inl 1, Inr 100, Inl 2, Inr 200, Inl 3]"
proof -
  let ?O = "demo_options \<lparr> retry := Some (RetryOptions
          \<lparr> attempts = 2, delay = Some 100, backoff = Some Exponential \<rparr>) \<rparr>"
  let ?T = "\<lambda>k::nat. Resolves (json_response 500 ''oops'')"
  have u: "new_URL demo (url ?O) =
      Inr \<lparr> location = ''https://api.example.com/items'', search = [] \<rparr>"
    by (simp add: demo_def demo_options_def)
  have n: "length (fetches (snd (zFetch demo ?O ?T))) = 3"
    by (simp add: run_simps)
  show ?thesis
    using zFetch_backoff_amended [OF u, of 3 ?T]
    by (simp add: n normalize_retry_def upt_conv_Cons)
qed

text \<open>
  C4 as stated fails when the configured delay is 0: the pause before the retry is
  \<open>1000\<close> ms, not \<open>0 * 1\<close>.
\<close>

theorem zFetch_zero_delay_counterexample:
  "waits (snd (zFetch demo
      (demo_options \<lparr> retry := Some (RetryOptions
          \<lparr> attempts = 1, delay = Some 0, backoff = Some Linear \<rparr>) \<rparr>)
      (\<lambda>k. Resolves (json_response 500 ''oops'')))) = [1000] \<and>
   waits (snd (zFetch demo
      (demo_options \<lparr> retry := Some (RetryOptions
          \<lparr> attempts = 1, delay = Some 0, backoff = Some Linear \<rparr>) \<rparr>)
      (\<lambda>k. Resolves (json_response 500 ''oops'')))) \<noteq> [0 * 1]"
  by (simp add: run_simps)

section \<open>Failures that are not retried\<close>

lemma loop_abort_wins:
  "try_block P S (fetch (signal (opts S)) transport (a + 1)) = (Threw error, es) \<Longrightarrow>
   signal_aborted (signal (opts S)) (a + 1) \<Longrightarrow>
   attempt_loop P transport S a =
     (Rejected (ZFE (bare_error ''Request aborted'' (URL_toString P (requestUrl S)) Abort)),
      attempt_prologue P S (a + 1) @ es @ [ClearTimeout])"
  by (rule loop_thrown) (simp_all add: catch_aborted)

text \<open>
  A signal that fires while a call is in flight ends the run with kind \<^verbatim>\<open>abort\<close>,
  whatever the retry policy and whatever the transport would have done.
\<close>

lemma loop_cancelled_during_call:
  assumes "listener_fires (signal (opts S)) (a + 1)"
  shows "attempt_loop P transport S a =
     (Rejected (ZFE (bare_error ''Request aborted'' (URL_toString P (requestUrl S)) Abort)),
      attempt_prologue P S (a + 1) @ [ClearTimeout])"
proof -
  have "try_block P S (fetch (signal (opts S)) transport (a + 1)) =
      (Threw (Plain AbortError), [])"
    using assms by (simp add: fetch_def try_block_def)
  then show ?thesis
    using loop_abort_wins [of P S transport a "Plain AbortError" "[]"]
      listener_fires_aborted [OF assms] by simp
qed

text \<open>
  C5, as amended.  When the first call resolves with a success status, the body is read
  and the schema rejects the data, and the caller's signal is not aborted when that
  failure is caught, \<^verbatim>\<open>zFetch\<close> rejects with the \<^verbatim>\<open>ZodFetchError\<close> of kind
  \<^verbatim>\<open>validation\<close> that carries the issues and the data, after one call, one validation
  and no pause, whatever the retry option is.
\<close>

theorem zFetch_validation_failure_amended:
  assumes "new_URL P (url options) = Inr u"
    and "transport 1 = Resolves r"
    and "ok r"
    and "read_data P r = Inr d"
    and "schema options d = Failure issues"
    and "\<not> signal_aborted (signal options) 1"
  shows "fst (zFetch P options transport) =
      Rejected (ZFE \<lparr> e_message = ''Validation error'', e_status = None,
                      e_statusText = None,
                      e_url = Some (URL_toString P (requestUrl (scope_of P options u))),
                      e_response = Some r, e_issues = Some issues,
                      e_data = Some (Payload d), e_cause = Validation \<rparr>) \<and>
    length (fetches (snd (zFetch P options transport))) = 1 \<and>
    waits (snd (zFetch P options transport)) = [] \<and>
    validations (snd (zFetch P options transport)) = [(status r, d)]"
proof -
  let ?S = "scope_of P options u"
  let ?v = "\<lparr> e_message = ''Validation error'', e_status = None, e_statusText = None,
      e_url = Some (URL_toString P (requestUrl ?S)), e_response = Some r,
      e_issues = Some issues, e_data = Some (Payload d), e_cause = Validation \<rparr>"
  have sg: "signal (opts ?S) = signal options" and sc: "schema (opts ?S) = schema options"
    by (simp_all add: scope_of_fields)
  have f: "fetch (signal (opts ?S)) transport (0 + 1) = Inr r"
    using assms(2,6) by (simp add: fetch_not_aborted sg)
  have t: "try_block P ?S (fetch (signal (opts ?S)) transport (0 + 1)) =
      (Threw (ZFE ?v), [ClearTimeout, Validate (status r) d])"
    unfolding f using assms(3,4,5) by (simp add: try_block_def sc)
  have c: "catch_block P ?S (0 + 1) (ZFE ?v) = Throw (ZFE ?v)"
    using assms(6) by (intro catch_classified) (simp_all add: sg)
  have "zFetch P options transport =
      (Rejected (ZFE ?v),
       attempt_prologue P ?S (0 + 1) @ [ClearTimeout, Validate (status r) d] @ [ClearTimeout])"
    using loop_thrown [OF t c] zFetch_valid [OF assms(1)] by simp
  then show ?thesis
    by (simp add: fetches_append waits_append validations_append attempt_prologue_def)
qed

theorem zFetch_validation_failure_amended_witness:
  \<open>fst (zFetch demo (demo_options \<lparr> retry := Some (RetryCount 2) \<rparr>)
          (\<lambda>k. Resolves (json_response 200 ''{"id":1}''))) =
     Rejected (ZFE \<lparr> e_message = ''Validation error'', e_status = None,
                     e_statusText = None,
                     e_url = Some ''https://api.example.com/items'',
                     e_response = Some (json_response 200 ''{"id":1}''),
                     e_issues = Some [''count: Required''],
                     e_data = Some (Payload (JObj [(''id'', JNum 1)])),
                     e_cause = Validation \<rparr>) \<and>
   length (fetches (snd (zFetch demo (demo_options \<lparr> retry := Some (RetryCount 2) \<rparr>)
          (\<lambda>k. Resolves (json_response 200 ''{"id":1}''))))) = 1 \<and>
   waits (snd (zFetch demo (demo_options \<lparr> retry := Some (RetryCount 2) \<rparr>)
          (\<lambda>k. Resolves (json_response 200 ''{"id":1}'')))) = []\<close>
proof -
  let ?O = "demo_options \<lparr> retry := Some (RetryCount 2) \<rparr>"
  let ?r = \<open>json_response 200 ''{"id":1}''\<close>
  let ?u = "\<lparr> location = ''https://api.example.com/items'', search = [] \<rparr>"
  have u: "new_URL demo (url ?O) = Inr ?u"
    by (simp add: demo_def demo_options_def)
  have t: "(\<lambda>k::nat. Resolves ?r) 1 = Resolves ?r" by simp
  have k: "ok ?r" by (simp add: ok_def json_response_def)
  have d: "read_data demo ?r = Inr (JObj [(''id'', JNum 1)])"
    by (simp add: read_data_def response_json_def response_text_def json_response_def
          demo_def demo_parse_def)
  have s: "schema ?O (JObj [(''id'', JNum 1)]) = Failure [''count: Required'']"
    by (simp add: demo_options_def count_schema_def)
  have a: "\<not> signal_aborted (signal ?O) 1"
    by (simp add: demo_options_def)
  have url: "URL_toString demo (requestUrl (scope_of demo ?O ?u)) =
      ''https://api.example.com/items''"
    by (simp add: scope_of_fields demo_def demo_URL_toString_def demo_options_def)
  show ?thesis
    using zFetch_validation_failure_amended [OF u t k d s a] by (simp add: url)
qed

text \<open>
  C5 as stated fails when the caller's signal is aborted by the time the validation
  failure is caught, whether it was aborted from the start or fires while the schema
  runs: the response has status 200 and the schema rejects its body, yet the error
  raised is of kind \<^verbatim>\<open>abort\<close>.
\<close>

theorem zFetch_validation_after_abort_counterexample:
  \<open>ok (json_response 200 ''{"id":1}'') \<and>
   read_data demo (json_response 200 ''{"id":1}'') = Inr (JObj [(''id'', JNum 1)]) \<and>
   count_schema (JObj [(''id'', JNum 1)]) = Failure [''count: Required''] \<and>
   fst (zFetch demo (demo_options \<lparr> signal := Some AbortedAtEntry \<rparr>)
          (\<lambda>k. Resolves (json_response 200 ''{"id":1}''))) =
     Rejected (ZFE \<lparr> e_message = ''Request aborted'', e_status = None, e_statusText = None,
                     e_url = Some ''https://api.example.com/items'', e_response = None,
                     e_issues = None, e_data = None, e_cause = Abort \<rparr>) \<and>
   fst (zFetch demo (demo_options \<lparr> signal := Some (FiresAfterCall 1) \<rparr>)
          (\<lambda>k. Resolves (json_response 200 ''{"id":1}''))) =
     Rejected (ZFE \<lparr> e_message = ''Request aborted'', e_status = None, e_statusText = None,
                     e_url = Some ''https://api.example.com/items'', e_response = None,
                     e_issues = None, e_data = None, e_cause = Abort \<rparr>)\<close>
  by (simp add: run_simps)




section \<open>Cancellation by the caller\<close>

text \<open>
  C1 fails on the code when the signal is aborted before the call: the listener added
  to an aborted signal never runs, the call goes through, and a good response is
  returned instead of an error of kind \<^verbatim>\<open>abort\<close>.
\<close>

theorem zFetch_aborted_at_entry_resolves:
  \<open>zFetch demo (demo_options \<lparr> signal := Some AbortedAtEntry, retry := Some (RetryCount 2) \<rparr>)
     (\<lambda>k. Resolves (json_response 200 ''{"count":1}'')) =
   (Resolved (JObj [(''count'', JNum 1)]),
    [NewController, SetTimeout 10000, AddEventListener,
     Fetch \<lparr> req_url = ''https://api.example.com/items'', req_headers = [], req_body = None,
             req_signal = Controller 1, req_method = None \<rparr>,
     ClearTimeout, Validate 200 (JObj [(''count'', JNum 1)])])\<close>
  by (simp add: run_simps)

section \<open>What reaches the schema in zFetch\<close>

lemma try_block_validations:
  "(st, d) \<in> set (validations (snd (try_block P S f))) \<Longrightarrow> 200 \<le> st \<and> st \<le> 299"
  by (auto simp: try_block_def ok_def split: sum.splits if_splits SafeParse.splits)

lemma attempt_prologue_validations: "validations (attempt_prologue P S k) = []"
  by (simp add: attempt_prologue_def)

text \<open>
  In \<^verbatim>\<open>zFetch\<close> the schema only ever sees the body of a response whose status is from
  200 to 299.
\<close>

lemma loop_validates_success_only:
  "(st, d) \<in> set (validations (snd (attempt_loop P transport S a))) \<Longrightarrow>
   200 \<le> st \<and> st \<le> 299"
proof (induction P transport S a rule: attempt_loop.induct)
  case (1 P transport S a)
  obtain c es where t: "try_block P S (fetch (signal (opts S)) transport (a + 1)) = (c, es)"
    by (cases "try_block P S (fetch (signal (opts S)) transport (a + 1))") auto
  have here: "(st, d) \<in> set (validations es) \<Longrightarrow> 200 \<le> st \<and> st \<le> 299"
    using try_block_validations [of st d P S "fetch (signal (opts S)) transport (a + 1)"] t
    by simp
  show ?case
  proof (cases c)
    case (Returned v)
    then show ?thesis
      using loop_returned [of P S transport a v es] t here "1.prems"
      by (simp add: validations_append attempt_prologue_validations)
  next
    case (Threw error)
    show ?thesis
    proof (cases "catch_block P S (a + 1) error")
      case (Throw x)
      then show ?thesis
        using loop_thrown [of P S transport a error es x] t Threw here "1.prems"
        by (simp add: validations_append attempt_prologue_validations)
    next
      case (Continue ms)
      have "(st, d) \<in> set (validations es) \<or>
          (st, d) \<in> set (validations (snd (attempt_loop P transport S (a + 1))))"
        using loop_continue [of P S transport a error es ms] t Threw Continue "1.prems"
        by (simp add: validations_append attempt_prologue_validations)
      then show ?thesis
        using here "1.IH" [OF refl t [symmetric] Threw Continue] by blast
    qed
  qed
qed

lemma zFetch_validates_success_only:
  "(st, d) \<in> set (validations (snd (zFetch P options transport))) \<Longrightarrow>
   200 \<le> st \<and> st \<le> 299"
  using loop_validates_success_only [of st d P transport _ 0]
  by (auto simp: zFetch_def split: sum.splits)

end
